theory Spec2Isabelle
  imports Complex_Main "HOL-Library.Multiset" "HOL-Library.Sublist"
begin

section \<open>Strings, numbers and errors\<close>

text \<open>
  A JavaScript string is a sequence of code units. The model uses \<^typ>\<open>string\<close>, whose
  characters are the code units 0..255 (ASCII and Latin-1). On these, \<open>trim\<close> removes the
  white-space code units TAB, LF, VT, FF, CR, SP and NBSP, and \<open>toLowerCase\<close> maps
  A..Z and the Latin-1 capitals (0xC0..0xDE without the multiplication sign 0xD7) to the
  code unit 32 places later and leaves every other code unit as it is.
\<close>

definition isWhitespace :: "char \<Rightarrow> bool" where
  "isWhitespace c = (let n = (of_char c :: nat) in (9 \<le> n \<and> n \<le> 13) \<or> n = 32 \<or> n = 160)"

definition trim :: "string \<Rightarrow> string" where
  "trim s = rev (dropWhile isWhitespace (rev (dropWhile isWhitespace s)))"

definition lowerChar :: "char \<Rightarrow> char" where
  "lowerChar c =
     (let n = (of_char c :: nat)
      in if (65 \<le> n \<and> n \<le> 90) \<or> (192 \<le> n \<and> n \<le> 222 \<and> n \<noteq> 215)
         then char_of (n + 32) else c)"

definition toLowerCase :: "string \<Rightarrow> string" where
  "toLowerCase s = map lowerChar s"

text \<open>\<open>s.includes(t)\<close>: \<open>t\<close> occurs in \<open>s\<close> as a contiguous run of code units.\<close>

fun startsWith :: "'a list \<Rightarrow> 'a list \<Rightarrow> bool" where
  "startsWith s [] = True"
| "startsWith [] (y # ys) = False"
| "startsWith (x # xs) (y # ys) = (x = y \<and> startsWith xs ys)"

fun includes_js :: "'a list \<Rightarrow> 'a list \<Rightarrow> bool" where
  "includes_js [] t = (t = [])"
| "includes_js (x # xs) t = (startsWith (x # xs) t \<or> includes_js xs t)"

text \<open>
  A JavaScript number, as far as the engine uses it: the relational operators and
  \<open>Math.min\<close>/\<open>Math.max\<close>. \<open>NaN\<close> compares false with everything, and is also what
  \<open>undefined\<close> becomes in a relational comparison.
\<close>

datatype jsnum = NaN | NegInf | Fin real | PosInf

fun js_lt :: "jsnum \<Rightarrow> jsnum \<Rightarrow> bool" where
  "js_lt NaN b = False"
| "js_lt a NaN = False"
| "js_lt PosInf b = False"
| "js_lt a NegInf = False"
| "js_lt NegInf b = True"
| "js_lt a PosInf = True"
| "js_lt (Fin x) (Fin y) = (x < y)"

definition js_gt :: "jsnum \<Rightarrow> jsnum \<Rightarrow> bool" where
  "js_gt a b = js_lt b a"

definition js_le :: "jsnum \<Rightarrow> jsnum \<Rightarrow> bool" where
  "js_le a b = (a \<noteq> NaN \<and> b \<noteq> NaN \<and> \<not> js_lt b a)"

definition math_min :: "jsnum \<Rightarrow> jsnum \<Rightarrow> jsnum" where
  "math_min a b = (if a = NaN \<or> b = NaN then NaN else if js_lt b a then b else a)"

definition math_max :: "jsnum \<Rightarrow> jsnum \<Rightarrow> jsnum" where
  "math_max a b = (if a = NaN \<or> b = NaN then NaN else if js_lt a b then b else a)"

text \<open>
  The errors the engine raises. \<open>NonEmptyStringError\<close> carries the field name;
  \<open>TypeError\<close> and \<open>Error\<close> carry their message.
\<close>

datatype error = NonEmptyStringError string | TypeError string | Error string

text \<open>
  Where the code units beyond Latin-1 matter (the lifespan strings, in which the parser
  looks for the en dash and the em dash), a string is the list of its UTF-16 code units
  as integers. \<open>codeUnits\<close> turns a literal into that form.
\<close>

type_synonym jsString = "int list"

definition codeUnits :: "string \<Rightarrow> jsString" where
  "codeUnits s = map of_char s"

text \<open>
  White space as \<open>trim\<close> and \<open>parseInt\<close> skip it: TAB, LF, VT, FF, CR, SP, NBSP, the
  space separators U+1680, U+2000..U+200A, U+202F, U+205F and U+3000, the line and
  paragraph separators U+2028 and U+2029, and U+FEFF.
\<close>

definition isWhiteSpaceUnit :: "int \<Rightarrow> bool" where
  "isWhiteSpaceUnit n \<longleftrightarrow>
     (9 \<le> n \<and> n \<le> 13) \<or> n = 32 \<or> n = 160 \<or> n = 5760 \<or> (8192 \<le> n \<and> n \<le> 8202)
     \<or> n = 8232 \<or> n = 8233 \<or> n = 8239 \<or> n = 8287 \<or> n = 12288 \<or> n = 65279"

definition trimUnits :: "jsString \<Rightarrow> jsString" where
  "trimUnits s = rev (dropWhile isWhiteSpaceUnit (rev (dropWhile isWhiteSpaceUnit s)))"

section \<open>The catalog\<close>

text \<open>
  The records follow the declaration \<open>DogBreedData\<close> of \<open>index.d.ts\<close>: \<open>name\<close> and
  \<open>origin\<close> are strings, every other property may be absent. The catalog itself
  (\<open>dogs.json\<close>) is a parameter of every operation.
\<close>

record Compatibility =
  children :: "bool option"
  otherDogs :: "bool option"
  cats :: "bool option"

record WeightData =
  min_w :: jsnum
  max_w :: jsnum

record Weight =
  lbs :: "WeightData option"
  kgs :: "WeightData option"

record DogBreedData =
  name :: string
  origin :: string
  size_b :: "string option"
  temperament :: "string list option"
  energyLevel :: "string option"
  trainability :: "string option"
  shedding :: "string option"
  lifespan :: "jsString option"
  groomingNeeds :: "string option"
  compatibility :: "Compatibility option"
  weight :: "Weight option"
  names :: "(string \<times> string) list option"

text \<open>
  A parameter with a default value, or an optional property read with a default: an
  absent argument is \<open>None\<close>.
\<close>

definition withDefault :: "'a \<Rightarrow> 'a option \<Rightarrow> 'a" where
  "withDefault d v = (case v of None \<Rightarrow> d | Some x \<Rightarrow> x)"

text \<open>The options of the name lookups, \<open>{ fuzzy = true, lang = 'en' }\<close> by default.\<close>

record MatchOptions =
  opt_fuzzy :: "bool option"
  opt_lang :: "string option"

section \<open>Validation helpers\<close>

definition validateNonEmptyString :: "string \<Rightarrow> string \<Rightarrow> error + unit" where
  "validateNonEmptyString v fieldName =
     (if trim v = [] then Inl (NonEmptyStringError fieldName) else Inr ())"

definition validateNonNegativeNumber :: "jsnum \<Rightarrow> string \<Rightarrow> error + unit" where
  "validateNonNegativeNumber v fieldName =
     (if js_lt v (Fin 0) then Inl (TypeError (fieldName @ '' must be a non-negative number''))
      else Inr ())"

definition UNIT_ALIASES_kgs :: "string list" where
  "UNIT_ALIASES_kgs = [''kg'', ''kgs'', ''kilogram'', ''kilograms'', ''kilo'', ''kilos'']"

definition UNIT_ALIASES_lbs :: "string list" where
  "UNIT_ALIASES_lbs = [''lb'', ''lbs'', ''pound'', ''pounds'']"

definition validateUnit :: "string \<Rightarrow> error + string" where
  \<open>validateUnit u =
     (let normalized = trim (toLowerCase u)
      in if normalized \<in> set UNIT_ALIASES_kgs then Inr ''kgs''
         else if normalized \<in> set UNIT_ALIASES_lbs then Inr ''lbs''
         else Inl (TypeError
           ''Unit must be "lbs"/"lb"/"pounds"/"pound" or "kgs"/"kg"/"kilograms"/"kilos"''))\<close>

section \<open>Name resolution\<close>

definition normalizeBreed :: "string \<Rightarrow> string" where
  "normalizeBreed breed = toLowerCase (trim breed)"

text \<open>
  The name the callback of \<open>findBreed\<close> compares: the record's \<open>name\<close>, replaced by
  \<open>names[lang]\<close> when the record has a \<open>names\<close> object with a non-empty entry for
  \<open>lang\<close>.
\<close>

definition comparisonName :: "DogBreedData \<Rightarrow> string \<Rightarrow> string" where
  "comparisonName dog lang =
     (case names dog of
        None \<Rightarrow> name dog
      | Some ns \<Rightarrow> (case map_of ns lang of
                     None \<Rightarrow> name dog
                   | Some alt \<Rightarrow> if alt = [] then name dog else alt))"

definition partialMatch :: "string \<Rightarrow> string \<Rightarrow> bool" where
  "partialMatch normName normalized = (includes_js normName normalized \<or> includes_js normalized normName)"

definition findBreed :: "DogBreedData list \<Rightarrow> string \<Rightarrow> MatchOptions \<Rightarrow> DogBreedData option" where
  "findBreed dogBreeds breed options =
     (let fuzzy = withDefault True (opt_fuzzy options);
          lang = withDefault ''en'' (opt_lang options);
          normalized = normalizeBreed breed
      in find (\<lambda>dog.
           let normName = normalizeBreed (comparisonName dog lang)
           in if fuzzy then partialMatch normName normalized
              else normName = normalized) dogBreeds)"

definition isValidDogBreed :: "DogBreedData list \<Rightarrow> string \<Rightarrow> MatchOptions \<Rightarrow> error + bool" where
  "isValidDogBreed dogBreeds breed options =
     (case validateNonEmptyString breed ''Breed name'' of
        Inl e \<Rightarrow> Inl e
      | Inr _ \<Rightarrow> Inr (findBreed dogBreeds breed options \<noteq> None))"

definition getDogBreedOrigin :: "DogBreedData list \<Rightarrow> string \<Rightarrow> MatchOptions \<Rightarrow> error + string option" where
  "getDogBreedOrigin dogBreeds breed options =
     (case validateNonEmptyString breed ''Breed name'' of
        Inl e \<Rightarrow> Inl e
      | Inr _ \<Rightarrow> Inr (case findBreed dogBreeds breed options of
                       None \<Rightarrow> None
                     | Some found \<Rightarrow> if origin found = [] then None else Some (origin found)))"

definition getDogBreedData :: "DogBreedData list \<Rightarrow> string \<Rightarrow> MatchOptions \<Rightarrow> error + DogBreedData option" where
  "getDogBreedData dogBreeds breed options =
     (case validateNonEmptyString breed ''Breed name'' of
        Inl e \<Rightarrow> Inl e
      | Inr _ \<Rightarrow> Inr (findBreed dogBreeds breed options))"

section \<open>Edit distance\<close>

text \<open>
  \<open>levenshteinDistance\<close> fills a table with one row per prefix of \<open>b\<close> and one column per
  prefix of \<open>a\<close>. An assignment \<open>row[j] = v\<close> overwrites an existing element and extends the
  array when \<open>j\<close> is its length; a write further out would leave holes, whose content is
  left unspecified here (the algorithm never makes one).
\<close>

definition array_set :: "'a list \<Rightarrow> nat \<Rightarrow> 'a \<Rightarrow> 'a list" where
  "array_set xs j v =
     (if j < length xs then xs[j := v]
      else xs @ replicate (j - length xs) undefined @ [v])"

definition matrix_set :: "nat list list \<Rightarrow> nat \<Rightarrow> nat \<Rightarrow> nat \<Rightarrow> nat list list" where
  "matrix_set matrix i j v = matrix[i := array_set (matrix ! i) j v]"

definition min3 :: "nat \<Rightarrow> nat \<Rightarrow> nat \<Rightarrow> nat" where
  "min3 x y z = min x (min y z)"

text \<open>The body of the inner loop, for row \<open>i\<close> and column \<open>j\<close>.\<close>

definition fillCell :: "'a list \<Rightarrow> 'a list \<Rightarrow> nat \<Rightarrow> nat \<Rightarrow> nat list list \<Rightarrow> nat list list" where
  "fillCell a b i j matrix =
     (let cost = (if b ! (i - 1) = a ! (j - 1) then 0 else 1)
      in matrix_set matrix i j
           (min3 (matrix ! (i - 1) ! j + 1)
                 (matrix ! i ! (j - 1) + 1)
                 (matrix ! (i - 1) ! (j - 1) + cost)))"

definition fillRow :: "'a list \<Rightarrow> 'a list \<Rightarrow> nat \<Rightarrow> nat list list \<Rightarrow> nat list list" where
  "fillRow a b i matrix = fold (fillCell a b i) [1..<Suc (length a)] matrix"

definition levenshteinDistance :: "'a list \<Rightarrow> 'a list \<Rightarrow> nat" where
  "levenshteinDistance a b =
     (let alen = length a; blen = length b
      in if alen = 0 then blen
         else if blen = 0 then alen
         else
           let matrix0 = map (\<lambda>i. [i]) [0..<Suc blen];
               matrix1 = fold (\<lambda>j m. matrix_set m 0 j j) [0..<Suc alen] matrix0;
               matrix2 = fold (fillRow a b) [1..<Suc blen] matrix1
           in matrix2 ! blen ! alen)"

text \<open>
  The recurrence the table is meant to satisfy, on lists read from their last element
  (the table is indexed by prefixes): used to reason about \<open>levenshteinDistance\<close>.
\<close>

fun editDistance :: "'a list \<Rightarrow> 'a list \<Rightarrow> nat" where
  "editDistance [] ys = length ys"
| "editDistance xs [] = length xs"
| "editDistance (x # xs) (y # ys) =
     min3 (editDistance (x # xs) ys + 1)
          (editDistance xs (y # ys) + 1)
          (editDistance xs ys + (if y = x then 0 else 1))"

text \<open>
  The entry the table should hold in row \<open>i\<close> and column \<open>j\<close>, and the loop invariant of
  the outer loop: rows \<open>0..k\<close> are complete, the rows below still hold their first entry.
\<close>

definition cell :: "'a list \<Rightarrow> 'a list \<Rightarrow> nat \<Rightarrow> nat \<Rightarrow> nat" where
  "cell a b i j = editDistance (rev (take j a)) (rev (take i b))"

definition rowsDone :: "'a list \<Rightarrow> 'a list \<Rightarrow> nat \<Rightarrow> nat list list \<Rightarrow> bool" where
  "rowsDone a b k m \<longleftrightarrow>
     length m = Suc (length b) \<and>
     (\<forall>i \<le> k. m ! i = map (cell a b i) [0..<Suc (length a)]) \<and>
     (\<forall>i. k < i \<and> i \<le> length b \<longrightarrow> m ! i = [i])"

section \<open>Lifespan parsing\<close>

definition isDigit :: "int \<Rightarrow> bool" where
  "isDigit n \<longleftrightarrow> 48 \<le> n \<and> n \<le> 57"

text \<open>The code units of the hyphen-minus, the en dash (U+2013) and the em dash (U+2014).\<close>

definition hyphen :: int where
  "hyphen = 45"

definition enDash :: int where
  "enDash = 8211"

definition emDash :: int where
  "emDash = 8212"

text \<open>\<open>s.split(c)\<close>: the pieces of \<open>s\<close> between the occurrences of \<open>c\<close>.\<close>

fun split_js :: "'a \<Rightarrow> 'a list \<Rightarrow> 'a list list" where
  "split_js c [] = [[]]"
| "split_js c (x # xs) =
     (if x = c then [] # split_js c xs
      else (case split_js c xs of [] \<Rightarrow> [[x]] | p # ps \<Rightarrow> (x # p) # ps))"

definition decimalValue :: "jsString \<Rightarrow> int" where
  "decimalValue ds = foldl (\<lambda>acc c. 10 * acc + (c - 48)) 0 ds"

text \<open>
  The Number value of a non-negative integer: the number itself below \<open>2^53\<close>; beyond, the
  nearest multiple of the power of two that leaves 53 significant bits, a tie going to
  the even one; and no finite value (\<open>None\<close>, for \<open>Infinity\<close>) from \<open>2^1024\<close> on.
\<close>

function bitLength :: "int \<Rightarrow> nat" where
  "bitLength n = (if n \<le> 0 then 0 else Suc (bitLength (n div 2)))"
  by pat_completeness auto
termination
  by (relation "measure nat") auto

definition nearestDouble :: "int \<Rightarrow> int option" where
  "nearestDouble n =
     (if n < 2 ^ 53 then Some n
      else
        let e = bitLength n - 53;
            q = n div 2 ^ e;
            r = n mod 2 ^ e;
            half = 2 ^ (e - 1);
            q' = (if half < r \<or> (r = half \<and> odd q) then q + 1 else q);
            v = q' * 2 ^ e
        in if 2 ^ 1024 \<le> v then None else Some v)"

definition toDouble :: "int \<Rightarrow> jsnum" where
  "toDouble n =
     (case nearestDouble \<bar>n\<bar> of
        None \<Rightarrow> if n < 0 then NegInf else PosInf
      | Some v \<Rightarrow> Fin (if n < 0 then - real_of_int v else real_of_int v))"

text \<open>
  \<open>parseInt(s, 10)\<close>: leading white space and one sign are skipped, the digits that follow
  are read, and the result is \<open>NaN\<close> when there is no digit, else the Number value of the
  integer read (correctly rounded; the standard lets an implementation replace the digits
  after the twentieth by zeros before rounding).
\<close>

definition parseInt10 :: "jsString \<Rightarrow> jsnum" where
  "parseInt10 s =
     (let t = dropWhile isWhiteSpaceUnit s;
          neg = (t \<noteq> [] \<and> hd t = 45);
          r = (if t \<noteq> [] \<and> (hd t = 45 \<or> hd t = 43) then tl t else t);
          ds = takeWhile isDigit r
      in if ds = [] then NaN
         else toDouble (if neg then - decimalValue ds else decimalValue ds))"

definition isFinite :: "jsnum \<Rightarrow> bool" where
  "isFinite x = (case x of Fin _ \<Rightarrow> True | _ \<Rightarrow> False)"

text \<open>
  \<open>a + b\<close> and \<open>x / 2\<close> on Numbers. The finite operands of the sum are integers here
  (results of \<open>parseInt\<close>), so that their exact sum is an integer, which is rounded as
  above; halving a Number of that size is exact.
\<close>

definition addIntegers :: "jsnum \<Rightarrow> jsnum \<Rightarrow> jsnum" where
  "addIntegers a b =
     (case (a, b) of
        (Fin x, Fin y) \<Rightarrow> toDouble (\<lfloor>x\<rfloor> + \<lfloor>y\<rfloor>)
      | (NaN, _) \<Rightarrow> NaN
      | (_, NaN) \<Rightarrow> NaN
      | (PosInf, NegInf) \<Rightarrow> NaN
      | (NegInf, PosInf) \<Rightarrow> NaN
      | (PosInf, _) \<Rightarrow> PosInf
      | (_, PosInf) \<Rightarrow> PosInf
      | (NegInf, _) \<Rightarrow> NegInf
      | (_, NegInf) \<Rightarrow> NegInf)"

definition halve :: "jsnum \<Rightarrow> jsnum" where
  "halve x = (case x of Fin v \<Rightarrow> Fin (v / 2) | other \<Rightarrow> other)"

text \<open>
  \<open>parseLifespanAverage\<close>: \<open>None\<close> is \<open>null\<close>. The first \<open>replace\<close> keeps the digits and
  the three dashes, the second turns the en dash and the em dash into \<open>-\<close>.
\<close>

definition parseLifespanAverage :: "jsString \<Rightarrow> jsnum option" where
  "parseLifespanAverage lifespanStr =
     (if lifespanStr = [] then None
      else
        let cleaned = filter (\<lambda>c. isDigit c \<or> c = hyphen \<or> c = enDash \<or> c = emDash) lifespanStr;
            normalized = trimUnits (map (\<lambda>c. if c = enDash \<or> c = emDash then hyphen else c) cleaned)
        in if length normalized = 0 then None
           else
             let parts = filter (\<lambda>s. s \<noteq> []) (map trimUnits (split_js hyphen normalized))
             in if length parts = 1 then
                  (let n = parseInt10 (parts ! 0)
                   in if isFinite n then Some n else None)
                else if length parts \<ge> 2 then
                  (let a = parseInt10 (parts ! 0);
                       b = parseInt10 (parts ! 1)
                   in if isFinite a \<and> isFinite b then Some (halve (addIntegers a b))
                      else None)
                else None)"

section \<open>Weight range filter\<close>

definition getDogsByWeightRange ::
  "DogBreedData list \<Rightarrow> jsnum \<Rightarrow> jsnum \<Rightarrow> string option \<Rightarrow> error + DogBreedData list" where
  "getDogsByWeightRange dogBreeds mn mx u =
     (let sortedMin = math_min mn mx;
          sortedMax = math_max mn mx
      in case validateUnit (withDefault ''lbs'' u) of
           Inl e \<Rightarrow> Inl e
         | Inr normalizedUnit \<Rightarrow>
             Inr (filter (\<lambda>dog.
               case weight dog of
                 None \<Rightarrow> False
               | Some w \<Rightarrow>
                   (case (if normalizedUnit = ''kgs'' then kgs w else lbs w) of
                      None \<Rightarrow> False
                    | Some weightData \<Rightarrow>
                        let dogMin = min_w weightData; dogMax = max_w weightData
                        in \<not> (js_lt dogMax sortedMin \<or> js_gt dogMin sortedMax))) dogBreeds))"

section \<open>Fuzzy search\<close>

text \<open>
  \<open>Array.prototype.sort\<close> with a comparator is a stable sort: an insertion sort that puts
  an element before the first one it does not exceed, going through the array from its
  end, so that equal elements keep their order.
\<close>

fun insertSorted :: "('a \<Rightarrow> 'a \<Rightarrow> int) \<Rightarrow> 'a \<Rightarrow> 'a list \<Rightarrow> 'a list" where
  "insertSorted cmp x [] = [x]"
| "insertSorted cmp x (y # ys) =
     (if cmp x y \<le> 0 then x # y # ys else y # insertSorted cmp x ys)"

definition array_sort :: "('a \<Rightarrow> 'a \<Rightarrow> int) \<Rightarrow> 'a list \<Rightarrow> 'a list" where
  "array_sort cmp xs = foldr (insertSorted cmp) xs []"

text \<open>
  The object \<open>{ ...dog, _matchScore: n }\<close>: the record extended by the score. Removing the
  score (\<open>({ _matchScore, ...dog }) => dog\<close>) truncates it again.
\<close>

record ScoredBreed = DogBreedData +
  matchScore :: nat

definition isPartialMatch :: "string \<Rightarrow> DogBreedData \<Rightarrow> bool" where
  "isPartialMatch normalized dog =
     (let dogName = normalizeBreed (name dog)
      in includes_js dogName normalized \<or> includes_js normalized dogName)"

definition isFuzzyMatch :: "string \<Rightarrow> jsnum \<Rightarrow> DogBreedData \<Rightarrow> bool" where
  "isFuzzyMatch normalized maxDistance dog =
     (let dogName = normalizeBreed (name dog)
      in if includes_js dogName normalized \<or> includes_js normalized dogName then False
         else let distance = levenshteinDistance normalized dogName
              in js_le (Fin (real distance)) maxDistance)"

definition withMatchScore :: "string \<Rightarrow> DogBreedData \<Rightarrow> ScoredBreed" where
  "withMatchScore normalized dog =
     (let dogName = normalizeBreed (name dog)
      in DogBreedData.extend dog (ScoredBreed.fields (levenshteinDistance normalized dogName)))"

definition fuzzySearchBreeds ::
  "DogBreedData list \<Rightarrow> string \<Rightarrow> jsnum option \<Rightarrow> error + DogBreedData list" where
  "fuzzySearchBreeds dogBreeds searchTerm maxDistanceArg =
     (let maxDistance = withDefault (Fin 2) maxDistanceArg
      in
      case validateNonEmptyString searchTerm ''Search term'' of
        Inl e \<Rightarrow> Inl e
      | Inr _ \<Rightarrow>
     (case validateNonNegativeNumber maxDistance ''maxDistance'' of
        Inl e \<Rightarrow> Inl e
      | Inr _ \<Rightarrow>
          let normalized = normalizeBreed searchTerm;
              substringMatches = filter (isPartialMatch normalized) dogBreeds;
              fuzzyMatches = map (withMatchScore normalized)
                               (filter (isFuzzyMatch normalized maxDistance) dogBreeds);
              sortedMatches = array_sort (\<lambda>a b. int (matchScore a) - int (matchScore b)) fuzzyMatches
          in Inr (substringMatches @ map DogBreedData.truncate sortedMatches)))"

text \<open>
  For the statements about the search: the distance the fuzzy pass computes for a record,
  bidirectional containment of the normalized term and the normalized name (with the
  library's \<open>sublist\<close>), and the condition of the fuzzy pass.
\<close>

definition searchDistance :: "string \<Rightarrow> DogBreedData \<Rightarrow> nat" where
  "searchDistance normalized dog = levenshteinDistance normalized (normalizeBreed (name dog))"

definition inContainment :: "string \<Rightarrow> DogBreedData \<Rightarrow> bool" where
  "inContainment normalized dog \<longleftrightarrow>
     sublist normalized (normalizeBreed (name dog)) \<or> sublist (normalizeBreed (name dog)) normalized"

definition fuzzyCandidate :: "string \<Rightarrow> jsnum \<Rightarrow> DogBreedData \<Rightarrow> bool" where
  "fuzzyCandidate normalized maxDistance dog \<longleftrightarrow>
     \<not> inContainment normalized dog
     \<and> js_le (Fin (real (searchDistance normalized dog))) maxDistance"

subsection \<open>Fuzzy search over a store of objects\<close>

text \<open>
  To speak about mutation, the same function over an explicit store. An object holds
  the properties of a breed and, possibly, the property \<open>_matchScore\<close>; a reference is an
  index into the store; the catalog is an array of references. Object literals allocate;
  \<open>filter\<close> copies references; \<open>sort\<close> permutes the array it is called on, which here is
  the fresh array \<open>fuzzyMatches\<close>.
\<close>

type_synonym obj = "DogBreedData \<times> nat option"
type_synonym heap = "obj list"
type_synonym ref = nat

definition alloc :: "heap \<Rightarrow> obj \<Rightarrow> ref \<times> heap" where
  "alloc h ob = (length h, h @ [ob])"

fun map_alloc :: "(obj \<Rightarrow> obj) \<Rightarrow> heap \<Rightarrow> ref list \<Rightarrow> ref list \<times> heap" where
  "map_alloc f h [] = ([], h)"
| "map_alloc f h (r # rs) =
     (let (r', h1) = alloc h (f (h ! r));
          (rs', h2) = map_alloc f h1 rs
      in (r' # rs', h2))"

definition scoreOrder :: "obj \<Rightarrow> obj \<Rightarrow> int" where
  "scoreOrder a b =
     (case (snd a, snd b) of
        (Some x, Some y) \<Rightarrow> int x - int y
      | _ \<Rightarrow> 0)"

definition fuzzySearchBreeds_heap ::
  "heap \<Rightarrow> ref list \<Rightarrow> string \<Rightarrow> jsnum option \<Rightarrow> error + (ref list \<times> heap)" where
  "fuzzySearchBreeds_heap h dogBreeds searchTerm maxDistanceArg =
     (let maxDistance = withDefault (Fin 2) maxDistanceArg
      in
      case validateNonEmptyString searchTerm ''Search term'' of
        Inl e \<Rightarrow> Inl e
      | Inr _ \<Rightarrow>
     (case validateNonNegativeNumber maxDistance ''maxDistance'' of
        Inl e \<Rightarrow> Inl e
      | Inr _ \<Rightarrow>
          let normalized = normalizeBreed searchTerm;
              substringMatches = filter (\<lambda>r. isPartialMatch normalized (fst (h ! r))) dogBreeds;
              (fuzzyMatches, h1) =
                 map_alloc (\<lambda>dog. (fst dog,
                                Some (levenshteinDistance normalized (normalizeBreed (name (fst dog))))))
                   h (filter (\<lambda>r. isFuzzyMatch normalized maxDistance (fst (h ! r))) dogBreeds);
              sortedMatches = array_sort (\<lambda>a b. scoreOrder (h1 ! a) (h1 ! b)) fuzzyMatches;
              (stripped, h2) = map_alloc (\<lambda>dog. (fst dog, None)) h1 sortedMatches
          in Inr (substringMatches @ stripped, h2)))"

text \<open>
  For the proofs: the scored copy of an object, the store after the scored copies have
  been allocated, and the sorted array of references to them.
\<close>

definition scored :: "string \<Rightarrow> obj \<Rightarrow> obj" where
  "scored n dog = (fst dog, Some (levenshteinDistance n (normalizeBreed (name (fst dog)))))"

definition heapAfterScoring :: "heap \<Rightarrow> ref list \<Rightarrow> string \<Rightarrow> jsnum \<Rightarrow> heap" where
  "heapAfterScoring h dogBreeds n maxd =
     h @ map (\<lambda>r. scored n (h ! r)) (filter (\<lambda>r. isFuzzyMatch n maxd (fst (h ! r))) dogBreeds)"

definition sortedRefs :: "heap \<Rightarrow> ref list \<Rightarrow> string \<Rightarrow> jsnum \<Rightarrow> ref list" where
  "sortedRefs h dogBreeds n maxd =
     (let h1 = heapAfterScoring h dogBreeds n maxd
      in array_sort (\<lambda>a b. scoreOrder (h1 ! a) (h1 ! b)) [length h..<length h1])"

section \<open>Comparison\<close>

record 'a Compared =
  c_breed1 :: 'a
  c_breed2 :: 'a
  c_match :: bool

record CompatibilityComparison =
  cc_breed1 :: "Compatibility option"
  cc_breed2 :: "Compatibility option"
  cc_children :: "bool Compared"
  cc_otherDogs :: "bool Compared"
  cc_cats :: "bool Compared"

record WeightComparison =
  w_breed1 :: "Weight option"
  w_breed2 :: "Weight option"

record Comparison =
  cmp_size :: "string option Compared"
  cmp_energyLevel :: "string option Compared"
  cmp_trainability :: "string option Compared"
  cmp_shedding :: "string option Compared"
  cmp_lifespan :: "jsString option Compared"
  cmp_groomingNeeds :: "string option Compared"
  cmp_origin :: "string Compared"
  cmp_compatibility :: CompatibilityComparison
  cmp_weight :: WeightComparison

record BreedComparison =
  breed1 :: DogBreedData
  breed2 :: DogBreedData
  comparison :: Comparison

definition compared :: "'a \<Rightarrow> 'a \<Rightarrow> 'a Compared" where
  "compared x y = \<lparr>c_breed1 = x, c_breed2 = y, c_match = (x = y)\<rparr>"

text \<open>\<open>dog.compatibility?.key\<close>: absent when the object or the property is.\<close>

definition optionalKey :: "(Compatibility \<Rightarrow> bool option) \<Rightarrow> DogBreedData \<Rightarrow> bool option" where
  "optionalKey key dog = (case compatibility dog of None \<Rightarrow> None | Some c \<Rightarrow> key c)"

definition comparedKey :: "(Compatibility \<Rightarrow> bool option) \<Rightarrow> DogBreedData \<Rightarrow> DogBreedData \<Rightarrow> bool Compared" where
  "comparedKey key dog1 dog2 =
     \<lparr>c_breed1 = (optionalKey key dog1 = Some True),
      c_breed2 = (optionalKey key dog2 = Some True),
      c_match = (optionalKey key dog1 = optionalKey key dog2)\<rparr>"

definition notFound :: "string \<Rightarrow> error" where
  \<open>notFound breed = Error (''Breed "'' @ breed @ ''" not found'')\<close>

definition compareBreeds :: "DogBreedData list \<Rightarrow> string \<Rightarrow> string \<Rightarrow> error + BreedComparison" where
  "compareBreeds dogBreeds b1 b2 =
     (case validateNonEmptyString b1 ''Breed 1'' of
        Inl e \<Rightarrow> Inl e
      | Inr _ \<Rightarrow>
     (case validateNonEmptyString b2 ''Breed 2'' of
        Inl e \<Rightarrow> Inl e
      | Inr _ \<Rightarrow>
     (case getDogBreedData dogBreeds b1 \<lparr>opt_fuzzy = Some True, opt_lang = None\<rparr> of
        Inl e \<Rightarrow> Inl e
      | Inr dog1 \<Rightarrow>
     (case getDogBreedData dogBreeds b2 \<lparr>opt_fuzzy = Some True, opt_lang = None\<rparr> of
        Inl e \<Rightarrow> Inl e
      | Inr dog2 \<Rightarrow>
     (case dog1 of
        None \<Rightarrow> Inl (notFound b1)
      | Some d1 \<Rightarrow>
     (case dog2 of
        None \<Rightarrow> Inl (notFound b2)
      | Some d2 \<Rightarrow>
          Inr \<lparr>breed1 = d1, breed2 = d2,
               comparison =
                 \<lparr>cmp_size = compared (size_b d1) (size_b d2),
                  cmp_energyLevel = compared (energyLevel d1) (energyLevel d2),
                  cmp_trainability = compared (trainability d1) (trainability d2),
                  cmp_shedding = compared (shedding d1) (shedding d2),
                  cmp_lifespan = compared (lifespan d1) (lifespan d2),
                  cmp_groomingNeeds = compared (groomingNeeds d1) (groomingNeeds d2),
                  cmp_origin = compared (origin d1) (origin d2),
                  cmp_compatibility =
                    \<lparr>cc_breed1 = compatibility d1, cc_breed2 = compatibility d2,
                     cc_children = comparedKey children d1 d2,
                     cc_otherDogs = comparedKey otherDogs d1 d2,
                     cc_cats = comparedKey cats d1 d2\<rparr>,
                  cmp_weight = \<lparr>w_breed1 = weight d1, w_breed2 = weight d2\<rparr>\<rparr>\<rparr>))))))"

section \<open>Recommendation\<close>

record WeightRange =
  wr_min :: jsnum
  wr_max :: jsnum
  wr_unit :: "string option"

record RecommendationPreferences =
  p_size :: "string option"
  p_energyLevel :: "string option"
  p_trainability :: "string option"
  p_shedding :: "string option"
  p_groomingNeeds :: "string option"
  p_origin :: "string option"
  p_compatibility :: "Compatibility option"
  p_weightRange :: "WeightRange option"
  p_minLifespan :: "jsnum option"

text \<open>\<open>pref && field !== pref\<close>: an absent or empty preference imposes nothing.\<close>

definition differs :: "string option \<Rightarrow> string option \<Rightarrow> bool" where
  "differs pref field = (case pref of None \<Rightarrow> False | Some v \<Rightarrow> v \<noteq> [] \<and> field \<noteq> Some v)"

text \<open>\<open>typeof c.key === 'boolean' && dog.compatibility.key !== c.key\<close>.\<close>

definition keyDiffers :: "bool option \<Rightarrow> bool option \<Rightarrow> bool" where
  "keyDiffers wanted actual = (case wanted of None \<Rightarrow> False | Some v \<Rightarrow> actual \<noteq> Some v)"

text \<open>
  The three blocks of the filter callback of \<open>getRecommendedBreeds\<close> that look into
  nested data; each is true when the block returns \<open>false\<close>.
\<close>

definition compatibilityFails :: "Compatibility option \<Rightarrow> DogBreedData \<Rightarrow> bool" where
  "compatibilityFails wanted dog =
     (case wanted of
        None \<Rightarrow> False
      | Some c \<Rightarrow>
          (case compatibility dog of
             None \<Rightarrow> True
           | Some dc \<Rightarrow>
               if keyDiffers (children c) (children dc) then True
               else if keyDiffers (otherDogs c) (otherDogs dc) then True
               else keyDiffers (cats c) (cats dc)))"

definition weightRangeFails :: "WeightRange option \<Rightarrow> DogBreedData \<Rightarrow> bool" where
  "weightRangeFails wanted dog =
     (case wanted of
        None \<Rightarrow> False
      | Some weightRange \<Rightarrow>
          (case weight dog of
             None \<Rightarrow> True
           | Some w \<Rightarrow>
               let u = (case wr_unit weightRange of
                          None \<Rightarrow> ''lbs''
                        | Some v \<Rightarrow> if v = [] then ''lbs'' else v)
               in (case (if u = ''kgs'' then kgs w else lbs w) of
                     None \<Rightarrow> True
                   | Some weightData \<Rightarrow>
                       let dogMin = min_w weightData; dogMax = max_w weightData;
                           inRange = \<not> (js_lt dogMax (wr_min weightRange)
                                       \<or> js_gt dogMin (wr_max weightRange))
                       in \<not> inRange)))"

definition minLifespanFails :: "jsnum \<Rightarrow> DogBreedData \<Rightarrow> bool" where
  "minLifespanFails minLifespan dog =
     (case lifespan dog of
        None \<Rightarrow> js_gt minLifespan (Fin 0)
      | Some l \<Rightarrow>
          if js_gt minLifespan (Fin 0) \<and> l \<noteq> [] then
            (case parseLifespanAverage l of
               None \<Rightarrow> False
             | Some avgLifespan \<Rightarrow> js_lt avgLifespan minLifespan)
          else js_gt minLifespan (Fin 0))"

text \<open>
  The callback of the filter in \<open>getRecommendedBreeds\<close>, with its early returns in order;
  \<open>minLifespan\<close> defaults to 0.
\<close>

definition recommended :: "RecommendationPreferences \<Rightarrow> DogBreedData \<Rightarrow> bool" where
  "recommended prefs dog =
     (let minLifespan = (case p_minLifespan prefs of None \<Rightarrow> Fin 0 | Some v \<Rightarrow> v)
      in
      if differs (p_size prefs) (size_b dog) then False
      else if differs (p_energyLevel prefs) (energyLevel dog) then False
      else if differs (p_trainability prefs) (trainability dog) then False
      else if differs (p_shedding prefs) (shedding dog) then False
      else if differs (p_groomingNeeds prefs) (groomingNeeds dog) then False
      else if differs (p_origin prefs) (Some (origin dog)) then False
      else if compatibilityFails (p_compatibility prefs) dog then False
      else if weightRangeFails (p_weightRange prefs) dog then False
      else if minLifespanFails minLifespan dog then False
      else True)"

definition getRecommendedBreeds :: "DogBreedData list \<Rightarrow> RecommendationPreferences \<Rightarrow> DogBreedData list" where
  "getRecommendedBreeds dogBreeds prefs = filter (recommended prefs) dogBreeds"

text \<open>
  For the statements: a record's compatibility agrees with the wanted one when every
  boolean that is wanted is the record's.
\<close>

definition compatibilityAgrees :: "Compatibility \<Rightarrow> Compatibility \<Rightarrow> bool" where
  "compatibilityAgrees wanted actual \<longleftrightarrow>
     (\<forall>v. children wanted = Some v \<longrightarrow> children actual = Some v)
     \<and> (\<forall>v. otherDogs wanted = Some v \<longrightarrow> otherDogs actual = Some v)
     \<and> (\<forall>v. cats wanted = Some v \<longrightarrow> cats actual = Some v)"

section \<open>Example catalog\<close>

definition pug :: DogBreedData where
  "pug = \<lparr>name = ''Pug'', origin = ''China'', size_b = Some ''small'',
     temperament = Some [''charming''], energyLevel = Some ''low'',
     trainability = Some ''moderate'', shedding = Some ''heavy'',
     lifespan = Some (codeUnits ''13-15 years''), groomingNeeds = Some ''low'',
     compatibility = Some \<lparr>children = Some True, otherDogs = Some True, cats = Some True\<rparr>,
     weight = Some \<lparr>lbs = Some \<lparr>min_w = Fin 14, max_w = Fin 18\<rparr>,
                    kgs = Some \<lparr>min_w = Fin 6, max_w = Fin 8\<rparr>\<rparr>,
     names = Some [(''de'', ''Mops'')]\<rparr>"

definition puli :: DogBreedData where
  "puli = \<lparr>name = ''Puli'', origin = ''Hungary'', size_b = Some ''medium'',
     temperament = Some [''loyal''], energyLevel = Some ''high'',
     trainability = Some ''high'', shedding = Some ''minimal'',
     lifespan = Some (codeUnits ''unknown''), groomingNeeds = Some ''high'',
     compatibility = None,
     weight = Some \<lparr>lbs = Some \<lparr>min_w = Fin 25, max_w = Fin 35\<rparr>, kgs = None\<rparr>,
     names = None\<rparr>"

definition pumi :: DogBreedData where
  "pumi = \<lparr>name = ''Pumi'', origin = ''Hungary'', size_b = Some ''medium'',
     temperament = None, energyLevel = Some ''high'',
     trainability = Some ''high'', shedding = Some ''minimal'',
     lifespan = None, groomingNeeds = Some ''moderate'',
     compatibility = Some \<lparr>children = Some True, otherDogs = Some False, cats = None\<rparr>,
     weight = None,
     names = None\<rparr>"

definition peke :: DogBreedData where
  "peke = \<lparr>name = ''Pug Mix'', origin = ''China'', size_b = Some ''small'',
     temperament = None, energyLevel = Some ''low'',
     trainability = Some ''low'', shedding = Some ''heavy'',
     lifespan = Some (codeUnits ''12''), groomingNeeds = Some ''high'',
     compatibility = Some \<lparr>children = Some False, otherDogs = Some True, cats = Some True\<rparr>,
     weight = Some \<lparr>lbs = Some \<lparr>min_w = Fin 7, max_w = Fin 14\<rparr>,
                    kgs = Some \<lparr>min_w = Fin 3, max_w = Fin 6\<rparr>\<rparr>,
     names = None\<rparr>"

definition longLived :: DogBreedData where
  "longLived = puli\<lparr>name := ''Longlived'', lifespan := Some (codeUnits ''9007199254740995'')\<rparr>"

definition exampleCatalog :: "DogBreedData list" where
  "exampleCatalog = [pug, puli, pumi, peke]"

definition noPreferences :: RecommendationPreferences where
  "noPreferences = \<lparr>p_size = None, p_energyLevel = None, p_trainability = None,
     p_shedding = None, p_groomingNeeds = None, p_origin = None, p_compatibility = None,
     p_weightRange = None, p_minLifespan = None\<rparr>"

definition exampleHeap :: heap where
  "exampleHeap = map (\<lambda>d. (d, None)) exampleCatalog"

section \<open>Properties of the edit distance\<close>

lemma editDistance_Nil2: "editDistance xs [] = length xs"
  by (cases xs) simp_all

lemma editDistance_same: "editDistance xs xs = 0"
  by (induction xs) (simp_all add: min3_def)

lemma editDistance_sym: "editDistance xs ys = editDistance ys xs"
proof (induction xs ys rule: editDistance.induct)
  case (1 ys)
  then show ?case by (simp add: editDistance_Nil2)
next
  case (2 x xs)
  then show ?case by simp
next
  case (3 x xs y ys)
  then show ?case by (simp add: min3_def min.commute min.left_commute eq_commute)
qed

lemma editDistance_zero: "editDistance xs ys = 0 \<Longrightarrow> xs = ys"
proof (induction xs ys rule: editDistance.induct)
  case (3 x xs y ys)
  then show ?case by (auto simp: min3_def min_def split: if_splits)
qed simp_all

lemma take_Suc_rev: "l < length a \<Longrightarrow> rev (take (Suc l) a) = a ! l # rev (take l a)"
  by (simp add: take_Suc_conv_app_nth)

lemma cell_0_j: "j \<le> length a \<Longrightarrow> cell a b 0 j = j"
  by (simp add: cell_def editDistance_Nil2)

lemma cell_i_0: "i \<le> length b \<Longrightarrow> cell a b i 0 = i"
  by (simp add: cell_def)

lemma cell_step:
  assumes "l < length a" "i < length b"
  shows "cell a b (Suc i) (Suc l) =
     min3 (cell a b i (Suc l) + 1) (cell a b (Suc i) l + 1)
          (cell a b i l + (if b ! i = a ! l then 0 else 1))"
  using assms by (simp add: cell_def take_Suc_rev)

lemma row0_init:
  "fold (\<lambda>j m. matrix_set m 0 j j) [0..<Suc n] (map (\<lambda>i. [i]) [0..<Suc blen])
     = [0..<Suc n] # map (\<lambda>i. [i]) [1..<Suc blen]"
proof (induction n)
  case 0
  then show ?case
    by (simp add: matrix_set_def array_set_def upt_conv_Cons del: upt_Suc)
next
  case (Suc n)
  have "[0..<Suc (Suc n)] = [0..<Suc n] @ [Suc n]" by simp
  then show ?case using Suc
    by (simp add: matrix_set_def array_set_def del: upt_Suc)
qed


lemma fillRow_prefix:
  assumes "Suc i < length m" "i < length b" "l \<le> length a"
    and "m ! i = map (cell a b i) [0..<Suc (length a)]"
    and "m ! Suc i = [Suc i]"
  shows "fold (fillCell a b (Suc i)) [1..<Suc l] m
           = m[Suc i := map (cell a b (Suc i)) [0..<Suc l]]"
  using assms(3)
proof (induction l)
  case 0
  have "cell a b (Suc i) 0 = Suc i" using assms(2) by (simp add: cell_i_0)
  then show ?case using assms(5) list_update_id [of m "Suc i"] by simp
next
  case (Suc l)
  let ?R = "map (cell a b (Suc i)) [0..<Suc l]"
  let ?m' = "m[Suc i := ?R]"
  have l: "l < length a" using Suc.prems by simp
  have IH: "fold (fillCell a b (Suc i)) [1..<Suc l] m = ?m'"
    using Suc by simp
  have r1: "?m' ! i ! Suc l = cell a b i (Suc l)"
    using assms(1,4) l by (simp del: upt_Suc)
  have r2: "?m' ! Suc i ! l = cell a b (Suc i) l"
    using assms(1) by (simp del: upt_Suc)
  have r3: "?m' ! i ! l = cell a b i l"
    using assms(1,4) l by (simp del: upt_Suc)
  have r4: "?m' ! Suc i = ?R" using assms(1) by simp
  have "fillCell a b (Suc i) (Suc l) ?m' = m[Suc i := ?R @ [cell a b (Suc i) (Suc l)]]"
    unfolding fillCell_def matrix_set_def Let_def
    using r1 r2 r3 r4 cell_step [OF l assms(2)]
    by (simp add: array_set_def del: upt_Suc)
  moreover have "[1..<Suc (Suc l)] = [1..<Suc l] @ [Suc l]" by simp
  moreover have "map (cell a b (Suc i)) [0..<Suc (Suc l)] = ?R @ [cell a b (Suc i) (Suc l)]"
    by simp
  ultimately show ?case using IH by (simp del: upt_Suc)
qed

lemma rowsDone_init:
  "rowsDone a b 0 ([0..<Suc (length a)] # map (\<lambda>i. [i]) [1..<Suc (length b)])"
  (is "rowsDone a b 0 ?m")
proof -
  have "map (cell a b 0) [0..<Suc (length a)] = [0..<Suc (length a)]"
    by (rule map_idI) (auto simp: cell_0_j)
  then have r0: "?m ! 0 = map (cell a b 0) [0..<Suc (length a)]"
    by (simp del: upt_Suc)
  have rest: "?m ! i = [i]" if "0 < i" "i \<le> length b" for i
    using that by (cases i) (simp_all del: upt_Suc)
  have len: "length ?m = Suc (length b)" by (simp del: upt_Suc)
  show ?thesis
    unfolding rowsDone_def using r0 rest len by blast
qed

lemma rowsDone_step:
  assumes "rowsDone a b k m" "k < length b"
  shows "rowsDone a b (Suc k) (fillRow a b (Suc k) m)"
proof -
  have len: "Suc k < length m" using assms by (simp add: rowsDone_def)
  have rk: "m ! k = map (cell a b k) [0..<Suc (length a)]"
    using assms by (simp add: rowsDone_def)
  have rs: "m ! Suc k = [Suc k]" using assms by (simp add: rowsDone_def)
  have eq: "fillRow a b (Suc k) m = m[Suc k := map (cell a b (Suc k)) [0..<Suc (length a)]]"
    unfolding fillRow_def by (rule fillRow_prefix [OF len assms(2) le_refl rk rs])
  show ?thesis
    unfolding eq rowsDone_def
    using assms len by (auto simp: rowsDone_def nth_list_update le_Suc_eq simp del: upt_Suc)
qed

lemma rowsDone_fold:
  assumes "rowsDone a b 0 m" "k \<le> length b"
  shows "rowsDone a b k (fold (fillRow a b) [1..<Suc k] m)"
  using assms(2)
proof (induction k)
  case 0
  then show ?case using assms(1) by simp
next
  case (Suc k)
  then have "rowsDone a b k (fold (fillRow a b) [1..<Suc k] m)" by simp
  then have "rowsDone a b (Suc k) (fillRow a b (Suc k) (fold (fillRow a b) [1..<Suc k] m))"
    using Suc.prems by (intro rowsDone_step) simp_all
  moreover have "[1..<Suc (Suc k)] = [1..<Suc k] @ [Suc k]" by simp
  ultimately show ?case by (simp del: upt_Suc)
qed

lemma levenshteinDistance_editDistance:
  "levenshteinDistance a b = editDistance (rev a) (rev b)"
proof (cases "a = [] \<or> b = []")
  case True
  then show ?thesis by (auto simp: levenshteinDistance_def Let_def editDistance_Nil2)
next
  case False
  let ?m = "fold (fillRow a b) [1..<Suc (length b)]
              ([0..<Suc (length a)] # map (\<lambda>i. [i]) [1..<Suc (length b)])"
  have "rowsDone a b (length b) ?m"
    by (rule rowsDone_fold [OF rowsDone_init le_refl])
  then have "?m ! length b = map (cell a b (length b)) [0..<Suc (length a)]"
    by (simp add: rowsDone_def)
  then have "?m ! length b ! length a = cell a b (length b) (length a)"
    by (simp del: upt_Suc)
  then show ?thesis using False
    by (simp add: levenshteinDistance_def Let_def row0_init cell_def del: upt_Suc)
qed

text \<open>
  C9. For all strings \<open>a\<close> and \<open>b\<close>: the distance from \<open>a\<close> to itself is 0, the distance
  between \<open>a\<close> and the empty string is the length of \<open>a\<close> (in either argument order), and
  the distance is symmetric.
\<close>

theorem levenshteinDistance_identity_empty_symmetric:
  "levenshteinDistance a a = 0
   \<and> levenshteinDistance a [] = length a
   \<and> levenshteinDistance [] a = length a
   \<and> levenshteinDistance a b = levenshteinDistance b a"
proof -
  have "levenshteinDistance a a = 0"
    by (simp add: levenshteinDistance_editDistance editDistance_same)
  moreover have "levenshteinDistance a [] = length a"
    by (simp add: levenshteinDistance_editDistance editDistance_Nil2)
  moreover have "levenshteinDistance [] a = length a"
    by (simp add: levenshteinDistance_editDistance)
  moreover have "levenshteinDistance a b = levenshteinDistance b a"
    unfolding levenshteinDistance_editDistance by (rule editDistance_sym)
  ultimately show ?thesis by blast
qed

theorem levenshteinDistance_identity_empty_symmetric_witness:
  "levenshteinDistance ''pug'' ''pug'' = 0
   \<and> levenshteinDistance ''pug'' [] = length ''pug''
   \<and> levenshteinDistance [] ''pug'' = length ''pug''
   \<and> levenshteinDistance ''pug'' ''pumi'' = levenshteinDistance ''pumi'' ''pug''
   \<and> levenshteinDistance ''pug'' ''pumi'' = 2"
proof -
  have "levenshteinDistance ''pug'' ''pumi'' = 2" by code_simp
  with levenshteinDistance_identity_empty_symmetric [of "''pug''" "''pumi''"]
  show ?thesis by blast
qed

section \<open>Name resolution: exact matching\<close>

lemma withDefault_Some: "withDefault d (Some x) = x"
  by (simp add: withDefault_def)

lemma findBreed_exact_Some:
  assumes "opt_fuzzy options = Some False"
    and "findBreed dogBreeds breed options = Some dog"
  shows "dog \<in> set dogBreeds
    \<and> normalizeBreed (comparisonName dog (withDefault ''en'' (opt_lang options))) = normalizeBreed breed"
proof -
  from assms obtain i where "i < length dogBreeds" and "dogBreeds ! i = dog"
    and "normalizeBreed (comparisonName dog (withDefault ''en'' (opt_lang options))) = normalizeBreed breed"
    by (auto simp: findBreed_def find_Some_iff withDefault_Some)
  then show ?thesis by auto
qed

text \<open>
  C5. With \<open>fuzzy = false\<close>, for every query and every language tag (given or left to its
  default \<open>en\<close>), a record returned by \<open>findBreed\<close> is a record of the catalog whose
  normalized comparison name equals the normalized query; the same holds for what
  \<open>getDogBreedData\<close>, \<open>getDogBreedOrigin\<close> and \<open>isValidDogBreed\<close> report.
\<close>

theorem exact_lookup_normalized_name_equal:
  assumes "opt_fuzzy options = Some False"
  shows
  "(findBreed dogBreeds breed options = Some dog \<longrightarrow>
      dog \<in> set dogBreeds
      \<and> normalizeBreed (comparisonName dog (withDefault ''en'' (opt_lang options))) = normalizeBreed breed)
   \<and> (getDogBreedData dogBreeds breed options = Inr (Some dog) \<longrightarrow>
      dog \<in> set dogBreeds
      \<and> normalizeBreed (comparisonName dog (withDefault ''en'' (opt_lang options))) = normalizeBreed breed)
   \<and> (getDogBreedOrigin dogBreeds breed options = Inr (Some org) \<longrightarrow>
      (\<exists>d \<in> set dogBreeds. origin d = org
          \<and> normalizeBreed (comparisonName d (withDefault ''en'' (opt_lang options))) = normalizeBreed breed))
   \<and> (isValidDogBreed dogBreeds breed options = Inr True \<longrightarrow>
      (\<exists>d \<in> set dogBreeds.
          normalizeBreed (comparisonName d (withDefault ''en'' (opt_lang options))) = normalizeBreed breed))"
proof -
  let ?lang = "withDefault ''en'' (opt_lang options)"
  note exact = findBreed_exact_Some [OF assms]
  have c1: "findBreed dogBreeds breed options = Some dog \<longrightarrow>
      dog \<in> set dogBreeds \<and> normalizeBreed (comparisonName dog ?lang) = normalizeBreed breed"
    using exact by blast
  have c2: "getDogBreedData dogBreeds breed options = Inr (Some dog) \<longrightarrow>
      dog \<in> set dogBreeds \<and> normalizeBreed (comparisonName dog ?lang) = normalizeBreed breed"
  proof
    assume "getDogBreedData dogBreeds breed options = Inr (Some dog)"
    then have "findBreed dogBreeds breed options = Some dog"
      by (auto simp: getDogBreedData_def split: sum.splits)
    then show "dog \<in> set dogBreeds
        \<and> normalizeBreed (comparisonName dog ?lang) = normalizeBreed breed"
      by (rule exact)
  qed
  have c3: "getDogBreedOrigin dogBreeds breed options = Inr (Some org) \<longrightarrow>
      (\<exists>d \<in> set dogBreeds. origin d = org
          \<and> normalizeBreed (comparisonName d ?lang) = normalizeBreed breed)"
  proof
    assume "getDogBreedOrigin dogBreeds breed options = Inr (Some org)"
    then obtain d where "findBreed dogBreeds breed options = Some d" and "origin d = org"
      by (auto simp: getDogBreedOrigin_def split: sum.splits option.splits if_splits)
    then show "\<exists>d \<in> set dogBreeds. origin d = org
        \<and> normalizeBreed (comparisonName d ?lang) = normalizeBreed breed"
      using exact by blast
  qed
  have c4: "isValidDogBreed dogBreeds breed options = Inr True \<longrightarrow>
      (\<exists>d \<in> set dogBreeds. normalizeBreed (comparisonName d ?lang) = normalizeBreed breed)"
  proof
    assume "isValidDogBreed dogBreeds breed options = Inr True"
    then obtain d where "findBreed dogBreeds breed options = Some d"
      by (auto simp: isValidDogBreed_def split: sum.splits)
    then show "\<exists>d \<in> set dogBreeds.
        normalizeBreed (comparisonName d ?lang) = normalizeBreed breed"
      using exact by blast
  qed
  from c1 c2 c3 c4 show ?thesis by blast
qed

theorem exact_lookup_normalized_name_equal_witness:
  "opt_fuzzy \<lparr>opt_fuzzy = Some False, opt_lang = Some ''de''\<rparr> = Some False
   \<and> findBreed exampleCatalog '' MOPS '' \<lparr>opt_fuzzy = Some False, opt_lang = Some ''de''\<rparr> = Some pug
   \<and> getDogBreedData exampleCatalog '' MOPS '' \<lparr>opt_fuzzy = Some False, opt_lang = Some ''de''\<rparr>
        = Inr (Some pug)
   \<and> getDogBreedOrigin exampleCatalog '' MOPS '' \<lparr>opt_fuzzy = Some False, opt_lang = Some ''de''\<rparr>
        = Inr (Some ''China'')
   \<and> isValidDogBreed exampleCatalog '' MOPS '' \<lparr>opt_fuzzy = Some False, opt_lang = Some ''de''\<rparr>
        = Inr True
   \<and> isValidDogBreed exampleCatalog '' MOPS '' \<lparr>opt_fuzzy = Some False, opt_lang = None\<rparr>
        = Inr False
   \<and> pug \<in> set exampleCatalog
   \<and> normalizeBreed (comparisonName pug ''de'') = normalizeBreed '' MOPS ''"
proof -
  let ?o = "\<lparr>opt_fuzzy = Some False, opt_lang = Some ''de''\<rparr>"
  have a: "opt_fuzzy ?o = Some False" by simp
  have f: "findBreed exampleCatalog '' MOPS '' ?o = Some pug"
    by code_simp
  have g: "getDogBreedData exampleCatalog '' MOPS '' ?o = Inr (Some pug)"
    by code_simp
  have o: "getDogBreedOrigin exampleCatalog '' MOPS '' ?o = Inr (Some ''China'')"
    by code_simp
  have v: "isValidDogBreed exampleCatalog '' MOPS '' ?o = Inr True"
    by code_simp
  have n: "isValidDogBreed exampleCatalog '' MOPS '' \<lparr>opt_fuzzy = Some False, opt_lang = None\<rparr>
      = Inr False"
    by code_simp
  from exact_lookup_normalized_name_equal [OF a, of exampleCatalog "'' MOPS ''" pug "''China''"] f
  have "pug \<in> set exampleCatalog
    \<and> normalizeBreed (comparisonName pug ''de'') = normalizeBreed '' MOPS ''"
    by (simp add: withDefault_Some)
  with a f g o v n show ?thesis by blast
qed

section \<open>Fuzzy search: ranking\<close>

lemma startsWith_prefix: "startsWith s t \<longleftrightarrow> prefix t s"
  by (induction s t rule: startsWith.induct) auto

lemma includes_js_sublist: "includes_js s t \<longleftrightarrow> sublist t s"
  by (induction s) (simp_all add: startsWith_prefix sublist_Cons_right)

lemma isPartialMatch_inContainment: "isPartialMatch n d = inContainment n d"
  by (simp add: isPartialMatch_def inContainment_def includes_js_sublist Let_def)

lemma isFuzzyMatch_iff:
  "isFuzzyMatch n maxd d \<longleftrightarrow> \<not> inContainment n d \<and> js_le (Fin (real (searchDistance n d))) maxd"
  by (simp add: isFuzzyMatch_def inContainment_def includes_js_sublist Let_def searchDistance_def)

lemma insertSorted_insort_key:
  "insertSorted (\<lambda>a b. int (f a) - int (f b)) x ys = insort_key f x ys"
  by (induction ys) simp_all

lemma array_sort_sort_key:
  "array_sort (\<lambda>a b. int (f a) - int (f b)) xs = sort_key f xs"
  by (induction xs) (simp_all add: array_sort_def sort_key_def insertSorted_insort_key)

lemma truncate_withMatchScore: "DogBreedData.truncate (withMatchScore n d) = d"
  by (simp add: withMatchScore_def DogBreedData.defs Let_def)

lemma matchScore_withMatchScore: "matchScore (withMatchScore n d) = searchDistance n d"
  by (simp add: withMatchScore_def DogBreedData.defs ScoredBreed.defs Let_def searchDistance_def)

lemma insort_key_map:
  "insort_key f (g x) (map g ys) = map g (insort_key (\<lambda>y. f (g y)) x ys)"
  by (induction ys) simp_all

lemma sort_key_map: "sort_key f (map g xs) = map g (sort_key (\<lambda>y. f (g y)) xs)"
  by (induction xs) (simp_all add: insort_key_map)

lemma strip_sorted_scored:
  "map DogBreedData.truncate (sort_key matchScore (map (withMatchScore n) xs))
     = sort_key (searchDistance n) xs"
proof -
  have "map DogBreedData.truncate (map (withMatchScore n) ys) = ys" for ys
    by (induction ys) (simp_all add: truncate_withMatchScore)
  then show ?thesis
    by (simp add: sort_key_map matchScore_withMatchScore del: map_map)
qed

lemma fuzzySearchBreeds_unfold:
  assumes "trim searchTerm \<noteq> []" "\<not> js_lt maxDistance (Fin 0)"
  shows "fuzzySearchBreeds dogBreeds searchTerm (Some maxDistance) =
     Inr (filter (inContainment (normalizeBreed searchTerm)) dogBreeds
          @ sort_key (searchDistance (normalizeBreed searchTerm))
              (filter (\<lambda>d. \<not> inContainment (normalizeBreed searchTerm) d
                         \<and> js_le (Fin (real (searchDistance (normalizeBreed searchTerm) d))) maxDistance)
                 dogBreeds))"
proof -
  have 1: "isPartialMatch (normalizeBreed searchTerm) = inContainment (normalizeBreed searchTerm)"
    by (rule ext) (rule isPartialMatch_inContainment)
  have 2: "isFuzzyMatch (normalizeBreed searchTerm) maxDistance =
     (\<lambda>d. \<not> inContainment (normalizeBreed searchTerm) d
         \<and> js_le (Fin (real (searchDistance (normalizeBreed searchTerm) d))) maxDistance)"
    by (rule ext) (rule isFuzzyMatch_iff)
  show ?thesis
    using assms
    by (simp add: fuzzySearchBreeds_def validateNonEmptyString_def validateNonNegativeNumber_def
        Let_def withDefault_Some array_sort_sort_key strip_sorted_scored 1 2)
qed



lemma fuzzySearchBreeds_result:
  assumes "validateNonEmptyString searchTerm ''Search term'' = Inr ()"
    and "validateNonNegativeNumber maxDistance ''maxDistance'' = Inr ()"
  shows "fuzzySearchBreeds dogBreeds searchTerm (Some maxDistance) =
     Inr (filter (inContainment (normalizeBreed searchTerm)) dogBreeds
          @ sort_key (searchDistance (normalizeBreed searchTerm))
              (filter (fuzzyCandidate (normalizeBreed searchTerm) maxDistance) dogBreeds))"
proof -
  have "trim searchTerm \<noteq> []" using assms(1)
    by (auto simp: validateNonEmptyString_def split: if_splits)
  moreover have "\<not> js_lt maxDistance (Fin 0)" using assms(2)
    by (auto simp: validateNonNegativeNumber_def split: if_splits)
  ultimately show ?thesis
    by (simp add: fuzzySearchBreeds_unfold fuzzyCandidate_def [abs_def])
qed

lemma fuzzySearchBreeds_default:
  "fuzzySearchBreeds dogBreeds searchTerm maxDistanceArg
     = fuzzySearchBreeds dogBreeds searchTerm (Some (withDefault (Fin 2) maxDistanceArg))"
  by (simp add: fuzzySearchBreeds_def withDefault_Some)

lemma levenshteinDistance_zero: "levenshteinDistance a b = 0 \<Longrightarrow> a = b"
  using editDistance_zero [of "rev a" "rev b"] by (simp add: levenshteinDistance_editDistance)

lemma no_fuzzyCandidate_zero: "\<not> fuzzyCandidate n (Fin 0) d"
proof
  assume c: "fuzzyCandidate n (Fin 0) d"
  then have "searchDistance n d = 0" by (simp add: fuzzyCandidate_def js_le_def)
  then have "n = normalizeBreed (name d)"
    unfolding searchDistance_def by (rule levenshteinDistance_zero)
  then have "inContainment n d" by (simp add: inContainment_def)
  with c show False by (simp add: fuzzyCandidate_def)
qed

text \<open>
  C1. For every valid search term and every valid (non-negative) \<open>maxDistance\<close>, the
  result of \<open>fuzzySearchBreeds\<close> is a first part followed by a second part: the first part
  is every catalog record in bidirectional containment with the normalized term, in
  catalog order; the second part holds exactly the records that are not in containment
  and whose distance is at most \<open>maxDistance\<close>, sorted by non-decreasing distance, records
  of equal distance in catalog order; no record in containment occurs in the second part.
\<close>

theorem fuzzySearchBreeds_partitioned:
  assumes "validateNonEmptyString searchTerm ''Search term'' = Inr ()"
    and "validateNonNegativeNumber (withDefault (Fin 2) maxDistanceArg) ''maxDistance'' = Inr ()"
  shows "\<exists>subs fuzzy.
      fuzzySearchBreeds dogBreeds searchTerm maxDistanceArg = Inr (subs @ fuzzy)
    \<and> subs = filter (inContainment (normalizeBreed searchTerm)) dogBreeds
    \<and> mset fuzzy = mset (filter (fuzzyCandidate (normalizeBreed searchTerm)
                                  (withDefault (Fin 2) maxDistanceArg)) dogBreeds)
    \<and> sorted (map (searchDistance (normalizeBreed searchTerm)) fuzzy)
    \<and> (\<forall>k. filter (\<lambda>d. searchDistance (normalizeBreed searchTerm) d = k) fuzzy
          = filter (\<lambda>d. searchDistance (normalizeBreed searchTerm) d = k)
              (filter (fuzzyCandidate (normalizeBreed searchTerm)
                         (withDefault (Fin 2) maxDistanceArg)) dogBreeds))
    \<and> (\<forall>d \<in> set fuzzy. \<not> inContainment (normalizeBreed searchTerm) d)"
proof -
  let ?n = "normalizeBreed searchTerm"
  let ?md = "withDefault (Fin 2) maxDistanceArg"
  let ?subs = "filter (inContainment ?n) dogBreeds"
  let ?cands = "filter (fuzzyCandidate ?n ?md) dogBreeds"
  let ?fuzzy = "sort_key (searchDistance ?n) ?cands"
  have "fuzzySearchBreeds dogBreeds searchTerm (Some ?md) = Inr (?subs @ ?fuzzy)"
    by (rule fuzzySearchBreeds_result [OF assms])
  then have r: "fuzzySearchBreeds dogBreeds searchTerm maxDistanceArg = Inr (?subs @ ?fuzzy)"
    by (subst fuzzySearchBreeds_default)
  have m: "mset ?fuzzy = mset ?cands" by simp
  have s: "sorted (map (searchDistance ?n) ?fuzzy)" by (rule sorted_sort_key)
  have st: "\<forall>k. filter (\<lambda>d. searchDistance ?n d = k) ?fuzzy
      = filter (\<lambda>d. searchDistance ?n d = k) ?cands"
    by (simp add: sort_key_stable)
  have nc: "\<forall>d \<in> set ?fuzzy. \<not> inContainment ?n d"
    by (simp add: fuzzyCandidate_def)
  from r m s st nc show ?thesis by blast
qed

theorem fuzzySearchBreeds_partitioned_witness:
  "validateNonEmptyString ''Pumi '' ''Search term'' = Inr ()
   \<and> validateNonNegativeNumber (withDefault (Fin 2) None) ''maxDistance'' = Inr ()
   \<and> fuzzySearchBreeds exampleCatalog ''Pumi '' None = Inr ([pumi] @ [puli, pug])
   \<and> (\<exists>subs fuzzy.
        fuzzySearchBreeds exampleCatalog ''Pumi '' None = Inr (subs @ fuzzy)
      \<and> subs = filter (inContainment (normalizeBreed ''Pumi '')) exampleCatalog
      \<and> mset fuzzy = mset (filter (fuzzyCandidate (normalizeBreed ''Pumi '')
                                    (withDefault (Fin 2) None)) exampleCatalog)
      \<and> sorted (map (searchDistance (normalizeBreed ''Pumi '')) fuzzy)
      \<and> (\<forall>k. filter (\<lambda>d. searchDistance (normalizeBreed ''Pumi '') d = k) fuzzy
            = filter (\<lambda>d. searchDistance (normalizeBreed ''Pumi '') d = k)
                (filter (fuzzyCandidate (normalizeBreed ''Pumi '')
                           (withDefault (Fin 2) None)) exampleCatalog))
      \<and> (\<forall>d \<in> set fuzzy. \<not> inContainment (normalizeBreed ''Pumi '') d))"
proof -
  have t: "validateNonEmptyString ''Pumi '' ''Search term'' = Inr ()" by code_simp
  have m: "validateNonNegativeNumber (withDefault (Fin 2) None) ''maxDistance'' = Inr ()"
    by code_simp
  have v: "fuzzySearchBreeds exampleCatalog ''Pumi '' None = Inr ([pumi] @ [puli, pug])"
    by code_simp
  from t m v fuzzySearchBreeds_partitioned [OF t m, of exampleCatalog]
  show ?thesis by blast
qed

section \<open>Fuzzy search: distance zero\<close>

text \<open>
  C6. For every non-empty search term, \<open>fuzzySearchBreeds(term, 0)\<close> returns exactly the
  substring pass: every record of the result is in bidirectional containment with the
  normalized term (a distance of zero means equal strings, which are in containment).
\<close>

theorem fuzzySearchBreeds_zero_only_containment:
  assumes "validateNonEmptyString searchTerm ''Search term'' = Inr ()"
  shows "\<exists>result.
      fuzzySearchBreeds dogBreeds searchTerm (Some (Fin 0)) = Inr result
    \<and> result = filter (inContainment (normalizeBreed searchTerm)) dogBreeds
    \<and> (\<forall>d \<in> set result. inContainment (normalizeBreed searchTerm) d)"
proof -
  have v: "validateNonNegativeNumber (Fin 0) ''maxDistance'' = Inr ()"
    by (simp add: validateNonNegativeNumber_def)
  have "filter (fuzzyCandidate (normalizeBreed searchTerm) (Fin 0)) dogBreeds = []"
    by (simp add: no_fuzzyCandidate_zero)
  then show ?thesis
    using fuzzySearchBreeds_result [OF assms v, of dogBreeds] by simp
qed

theorem fuzzySearchBreeds_zero_only_containment_witness:
  "validateNonEmptyString ''Pumi '' ''Search term'' = Inr ()
   \<and> fuzzySearchBreeds exampleCatalog ''Pumi '' (Some (Fin 0)) = Inr [pumi]
   \<and> (\<exists>result.
        fuzzySearchBreeds exampleCatalog ''Pumi '' (Some (Fin 0)) = Inr result
      \<and> result = filter (inContainment (normalizeBreed ''Pumi '')) exampleCatalog
      \<and> (\<forall>d \<in> set result. inContainment (normalizeBreed ''Pumi '') d))"
proof -
  have t: "validateNonEmptyString ''Pumi '' ''Search term'' = Inr ()" by code_simp
  have v: "fuzzySearchBreeds exampleCatalog ''Pumi '' (Some (Fin 0)) = Inr [pumi]" by code_simp
  from t v fuzzySearchBreeds_zero_only_containment [OF t, of exampleCatalog]
  show ?thesis by blast
qed

section \<open>Fuzzy search: objects and the store\<close>

lemma map_alloc_eq:
  assumes "\<forall>r \<in> set rs. r < length h"
  shows "map_alloc f h rs = ([length h..<length h + length rs], h @ map (\<lambda>r. f (h ! r)) rs)"
  using assms
proof (induction rs arbitrary: h)
  case Nil
  then show ?case by simp
next
  case (Cons r rs)
  let ?h1 = "h @ [f (h ! r)]"
  have "\<forall>r' \<in> set rs. r' < length ?h1" using Cons.prems by auto
  then have IH: "map_alloc f ?h1 rs
      = ([length ?h1..<length ?h1 + length rs], ?h1 @ map (\<lambda>r. f (?h1 ! r)) rs)"
    by (rule Cons.IH)
  have same: "map (\<lambda>r. f (?h1 ! r)) rs = map (\<lambda>r. f (h ! r)) rs"
    using Cons.prems by (auto simp: nth_append)
  have "[length h..<length h + length (r # rs)] = length h # [length ?h1..<length ?h1 + length rs]"
    by (subst upt_rec) (simp del: upt_Suc)
  then show ?case
    using IH same by (simp add: alloc_def del: upt_Suc)
qed

lemma mset_insertSorted: "mset (insertSorted cmp x ys) = add_mset x (mset ys)"
  by (induction ys) simp_all

lemma mset_array_sort: "mset (array_sort cmp xs) = mset xs"
  by (induction xs) (simp_all add: array_sort_def mset_insertSorted)

lemma set_array_sort: "set (array_sort cmp xs) = set xs"
  using mset_array_sort [of cmp xs] by (metis set_mset_mset)

lemma insertSorted_map:
  "insertSorted cmp (g x) (map g ys) = map g (insertSorted (\<lambda>a b. cmp (g a) (g b)) x ys)"
  by (induction ys) simp_all

lemma array_sort_map:
  "array_sort cmp (map g xs) = map g (array_sort (\<lambda>a b. cmp (g a) (g b)) xs)"
  by (induction xs) (simp_all add: array_sort_def insertSorted_map)

lemma length_heapAfterScoring:
  "length (heapAfterScoring h dogBreeds n maxd)
     = length h + length (filter (\<lambda>r. isFuzzyMatch n maxd (fst (h ! r))) dogBreeds)"
  by (simp add: heapAfterScoring_def)

lemma set_sortedRefs:
  "set (sortedRefs h dogBreeds n maxd) = {length h..<length (heapAfterScoring h dogBreeds n maxd)}"
  by (simp add: sortedRefs_def Let_def set_array_sort)

lemma fuzzySearchBreeds_heap_unfold:
  assumes t: "validateNonEmptyString searchTerm ''Search term'' = Inr ()"
    and m: "validateNonNegativeNumber maxDistance ''maxDistance'' = Inr ()"
    and refs: "\<forall>r \<in> set dogBreeds. r < length h"
  shows "fuzzySearchBreeds_heap h dogBreeds searchTerm (Some maxDistance) =
     Inr (filter (\<lambda>r. isPartialMatch (normalizeBreed searchTerm) (fst (h ! r))) dogBreeds
            @ [length (heapAfterScoring h dogBreeds (normalizeBreed searchTerm) maxDistance)
               ..<length (heapAfterScoring h dogBreeds (normalizeBreed searchTerm) maxDistance)
                   + length (sortedRefs h dogBreeds (normalizeBreed searchTerm) maxDistance)],
          heapAfterScoring h dogBreeds (normalizeBreed searchTerm) maxDistance
            @ map (\<lambda>r. (fst (heapAfterScoring h dogBreeds (normalizeBreed searchTerm) maxDistance ! r), None))
                (sortedRefs h dogBreeds (normalizeBreed searchTerm) maxDistance))"
proof -
  let ?n = "normalizeBreed searchTerm"
  let ?fz = "filter (\<lambda>r. isFuzzyMatch ?n maxDistance (fst (h ! r))) dogBreeds"
  let ?h1 = "heapAfterScoring h dogBreeds ?n maxDistance"
  let ?sm = "sortedRefs h dogBreeds ?n maxDistance"
  have "\<forall>r \<in> set ?fz. r < length h" using refs by simp
  then have a1: "map_alloc (\<lambda>dog. (fst dog, Some (levenshteinDistance ?n (normalizeBreed (name (fst dog))))))
        h ?fz = ([length h..<length h + length ?fz], ?h1)"
    by (simp add: map_alloc_eq heapAfterScoring_def scored_def [abs_def])
  have len: "length ?h1 = length h + length ?fz" by (rule length_heapAfterScoring)
  have sm: "array_sort (\<lambda>a b. scoreOrder (?h1 ! a) (?h1 ! b)) [length h..<length h + length ?fz] = ?sm"
    by (simp add: sortedRefs_def Let_def len)
  have "\<forall>r \<in> set ?sm. r < length ?h1" by (simp add: set_sortedRefs)
  then have a2: "map_alloc (\<lambda>dog. (fst dog, None)) ?h1 ?sm
      = ([length ?h1..<length ?h1 + length ?sm], ?h1 @ map (\<lambda>r. (fst (?h1 ! r), None)) ?sm)"
    by (rule map_alloc_eq)
  show ?thesis
    unfolding fuzzySearchBreeds_heap_def Let_def withDefault_Some t m
    by (simp only: a1 sm a2 sum.case prod.case)
qed


lemma heapAfterScoring_old:
  "r < length h \<Longrightarrow> heapAfterScoring h dogBreeds n maxd ! r = h ! r"
  by (simp add: heapAfterScoring_def nth_append)

lemma heapAfterScoring_new:
  assumes "length h \<le> x" "x < length (heapAfterScoring h dogBreeds n maxd)"
  shows "\<exists>c \<in> set dogBreeds. fst (heapAfterScoring h dogBreeds n maxd ! x) = fst (h ! c)"
proof -
  let ?fz = "filter (\<lambda>r. isFuzzyMatch n maxd (fst (h ! r))) dogBreeds"
  have j: "x - length h < length ?fz"
    using assms by (simp add: length_heapAfterScoring)
  then have "heapAfterScoring h dogBreeds n maxd ! x = scored n (h ! (?fz ! (x - length h)))"
    using assms(1) by (simp add: heapAfterScoring_def nth_append)
  moreover have "?fz ! (x - length h) \<in> set ?fz" using j by (rule nth_mem)
  ultimately show ?thesis by (auto simp: scored_def)
qed

lemma map_nth_append_upt:
  "map (\<lambda>r. (xs @ ys) ! r) [length xs..<length xs + length ys] = ys"
  by (rule nth_equalityI) (simp_all add: nth_append)

lemma scoreOrder_scored:
  "scoreOrder (scored n a) (scored n b)
     = int (searchDistance n (fst a)) - int (searchDistance n (fst b))"
  by (simp add: scoreOrder_def scored_def searchDistance_def)

lemma sortedRefs_objects:
  "map (\<lambda>r. fst (heapAfterScoring h dogBreeds n maxd ! r)) (sortedRefs h dogBreeds n maxd)
     = sort_key (searchDistance n)
         (filter (isFuzzyMatch n maxd) (map (\<lambda>r. fst (h ! r)) dogBreeds))"
proof -
  let ?fz = "filter (\<lambda>r. isFuzzyMatch n maxd (fst (h ! r))) dogBreeds"
  let ?objs = "map (\<lambda>r. h ! r) ?fz"
  let ?h1 = "heapAfterScoring h dogBreeds n maxd"
  have h1: "?h1 = h @ map (scored n) ?objs"
    by (simp add: heapAfterScoring_def comp_def)
  have len: "length ?h1 = length h + length (map (scored n) ?objs)"
    by (simp add: length_heapAfterScoring)
  have cells: "map (\<lambda>r. ?h1 ! r) [length h..<length ?h1] = map (scored n) ?objs"
    unfolding len unfolding h1 by (rule map_nth_append_upt)
  have "map (\<lambda>r. ?h1 ! r) (sortedRefs h dogBreeds n maxd)
      = array_sort scoreOrder (map (\<lambda>r. ?h1 ! r) [length h..<length ?h1])"
    by (simp add: sortedRefs_def Let_def array_sort_map)
  also have "\<dots> = array_sort scoreOrder (map (scored n) ?objs)"
    by (simp only: cells)
  also have "\<dots> = map (scored n)
      (array_sort (\<lambda>a b. int (searchDistance n (fst a)) - int (searchDistance n (fst b))) ?objs)"
    by (simp add: array_sort_map scoreOrder_scored)
  also have "\<dots> = map (scored n) (sort_key (\<lambda>ob. searchDistance n (fst ob)) ?objs)"
    by (simp only: array_sort_sort_key)
  finally have "map fst (map (\<lambda>r. ?h1 ! r) (sortedRefs h dogBreeds n maxd))
      = map fst (map (scored n) (sort_key (\<lambda>ob. searchDistance n (fst ob)) ?objs))"
    by simp
  also have "\<dots> = map fst (sort_key (\<lambda>ob. searchDistance n (fst ob)) ?objs)"
    by (simp add: scored_def comp_def)
  also have "\<dots> = sort_key (searchDistance n) (map fst ?objs)"
    by (simp add: sort_key_map)
  also have "map fst ?objs = filter (isFuzzyMatch n maxd) (map (\<lambda>r. fst (h ! r)) dogBreeds)"
    by (simp add: filter_map comp_def)
  finally show ?thesis by (simp add: comp_def)
qed

lemma fuzzySearchBreeds_heap_refines:
  assumes t: "validateNonEmptyString searchTerm ''Search term'' = Inr ()"
    and m: "validateNonNegativeNumber maxDistance ''maxDistance'' = Inr ()"
    and refs: "\<forall>r \<in> set dogBreeds. r < length h"
    and run: "fuzzySearchBreeds_heap h dogBreeds searchTerm (Some maxDistance) = Inr (result, h')"
  shows "fuzzySearchBreeds (map (\<lambda>r. fst (h ! r)) dogBreeds) searchTerm (Some maxDistance)
     = Inr (map (\<lambda>r. fst (h' ! r)) result)"
proof -
  let ?n = "normalizeBreed searchTerm"
  let ?h1 = "heapAfterScoring h dogBreeds ?n maxDistance"
  let ?sm = "sortedRefs h dogBreeds ?n maxDistance"
  let ?subs = "filter (\<lambda>r. isPartialMatch ?n (fst (h ! r))) dogBreeds"
  let ?new = "map (\<lambda>r. (fst (?h1 ! r), None :: nat option)) ?sm"
  let ?st = "[length ?h1..<length ?h1 + length ?new]"
  let ?cat = "map (\<lambda>r. fst (h ! r)) dogBreeds"
  from fuzzySearchBreeds_heap_unfold [OF t m refs] run
  have res: "result = ?subs @ ?st" and h': "h' = ?h1 @ ?new" by simp_all
  have "map (\<lambda>r. fst (h' ! r)) ?subs = map (\<lambda>r. fst (h ! r)) ?subs"
    using refs by (auto simp: h' nth_append heapAfterScoring_def)
  also have "\<dots> = filter (isPartialMatch ?n) ?cat"
    by (simp add: filter_map comp_def)
  finally have p1: "map (\<lambda>r. fst (h' ! r)) ?subs = filter (isPartialMatch ?n) ?cat" .
  have "map (\<lambda>r. h' ! r) ?st = ?new"
    unfolding h' by (rule map_nth_append_upt)
  then have "map fst (map (\<lambda>r. h' ! r) ?st) = map fst ?new" by simp
  then have "map (\<lambda>r. fst (h' ! r)) ?st = map (\<lambda>r. fst (?h1 ! r)) ?sm"
    by (simp add: comp_def)
  also have "\<dots> = sort_key (searchDistance ?n) (filter (isFuzzyMatch ?n maxDistance) ?cat)"
    by (rule sortedRefs_objects)
  finally have p2: "map (\<lambda>r. fst (h' ! r)) ?st
      = sort_key (searchDistance ?n) (filter (isFuzzyMatch ?n maxDistance) ?cat)" .
  have "fuzzySearchBreeds ?cat searchTerm (Some maxDistance)
      = Inr (filter (isPartialMatch ?n) ?cat
             @ sort_key (searchDistance ?n) (filter (isFuzzyMatch ?n maxDistance) ?cat))"
    using fuzzySearchBreeds_result [OF t m, of ?cat]
    by (simp add: isPartialMatch_inContainment [abs_def] isFuzzyMatch_iff [abs_def]
        fuzzyCandidate_def [abs_def])
  then show ?thesis unfolding res using p1 p2 by simp
qed

lemma fuzzySearchBreeds_heap_default:
  "fuzzySearchBreeds_heap h dogBreeds searchTerm maxDistanceArg
     = fuzzySearchBreeds_heap h dogBreeds searchTerm (Some (withDefault (Fin 2) maxDistanceArg))"
  by (simp add: fuzzySearchBreeds_heap_def withDefault_Some)

text \<open>
  C10. For every valid search term and \<open>maxDistance\<close>, on a store in which the catalog
  records carry no \<open>_matchScore\<close>: the search returns; the store it leaves agrees with the
  old store on every old reference (no catalog record is changed, objects are only
  added); every returned reference points to an object without \<open>_matchScore\<close> that has
  exactly the properties of a catalog record; and the objects returned are, in order, the
  records the search over values returns.
\<close>

theorem fuzzySearchBreeds_heap_frame:
  assumes t: "validateNonEmptyString searchTerm ''Search term'' = Inr ()"
    and m: "validateNonNegativeNumber (withDefault (Fin 2) maxDistanceArg) ''maxDistance'' = Inr ()"
    and refs: "\<forall>r \<in> set dogBreeds. r < length h \<and> snd (h ! r) = None"
  shows "\<exists>result h'.
      fuzzySearchBreeds_heap h dogBreeds searchTerm maxDistanceArg = Inr (result, h')
    \<and> take (length h) h' = h
    \<and> (\<forall>r \<in> set result. r < length h' \<and> snd (h' ! r) = None
          \<and> (\<exists>c \<in> set dogBreeds. h' ! r = h ! c))
    \<and> fuzzySearchBreeds (map (\<lambda>r. fst (h ! r)) dogBreeds) searchTerm maxDistanceArg
          = Inr (map (\<lambda>r. fst (h' ! r)) result)"
proof -
  let ?n = "normalizeBreed searchTerm"
  define maxDistance where "maxDistance = withDefault (Fin 2) maxDistanceArg"
  note m' = m [folded maxDistance_def]
  let ?h1 = "heapAfterScoring h dogBreeds ?n maxDistance"
  let ?sm = "sortedRefs h dogBreeds ?n maxDistance"
  let ?subs = "filter (\<lambda>r. isPartialMatch ?n (fst (h ! r))) dogBreeds"
  let ?st = "[length ?h1..<length ?h1 + length ?sm]"
  let ?h2 = "?h1 @ map (\<lambda>r. (fst (?h1 ! r), None)) ?sm"
  have refs': "\<forall>r \<in> set dogBreeds. r < length h" using refs by simp
  have run: "fuzzySearchBreeds_heap h dogBreeds searchTerm (Some maxDistance) = Inr (?subs @ ?st, ?h2)"
    by (rule fuzzySearchBreeds_heap_unfold [OF t m' refs'])
  have le: "length h \<le> length ?h1" by (simp add: length_heapAfterScoring)
  have frame: "take (length h) ?h2 = h"
    by (simp add: heapAfterScoring_def)
  have old: "r < length ?h2 \<and> snd (?h2 ! r) = None \<and> (\<exists>c \<in> set dogBreeds. ?h2 ! r = h ! c)"
    if "r \<in> set ?subs" for r
  proof -
    from that have r: "r \<in> set dogBreeds" by simp
    then have lt: "r < length h" using refs by simp
    then have "?h2 ! r = h ! r" using le by (simp add: nth_append heapAfterScoring_old)
    then show ?thesis using r lt le refs by auto
  qed
  have new: "r < length ?h2 \<and> snd (?h2 ! r) = None \<and> (\<exists>c \<in> set dogBreeds. ?h2 ! r = h ! c)"
    if "r \<in> set ?st" for r
  proof -
    from that have k: "length ?h1 \<le> r" "r - length ?h1 < length ?sm" by auto
    let ?x = "?sm ! (r - length ?h1)"
    have eq: "?h2 ! r = (fst (?h1 ! ?x), None)"
      using k by (simp add: nth_append)
    have "?x \<in> set ?sm" using k(2) by (rule nth_mem)
    then have "length h \<le> ?x" "?x < length ?h1" by (simp_all add: set_sortedRefs)
    then obtain c where c: "c \<in> set dogBreeds" "fst (?h1 ! ?x) = fst (h ! c)"
      using heapAfterScoring_new by blast
    then have "snd (h ! c) = None" using refs by simp
    with c eq have 1: "?h2 ! r = h ! c" by (simp add: prod_eq_iff)
    have 2: "r < length ?h2" using that by simp
    have 3: "snd (?h2 ! r) = None" unfolding eq by simp
    from 1 2 3 c(1) show ?thesis by blast
  qed
  have objs: "\<forall>r \<in> set (?subs @ ?st). r < length ?h2 \<and> snd (?h2 ! r) = None
      \<and> (\<exists>c \<in> set dogBreeds. ?h2 ! r = h ! c)"
    using old new by (metis Un_iff set_append)
  have pure: "fuzzySearchBreeds (map (\<lambda>r. fst (h ! r)) dogBreeds) searchTerm (Some maxDistance)
      = Inr (map (\<lambda>r. fst (?h2 ! r)) (?subs @ ?st))"
    by (rule fuzzySearchBreeds_heap_refines [OF t m' refs' run])
  have run': "fuzzySearchBreeds_heap h dogBreeds searchTerm maxDistanceArg = Inr (?subs @ ?st, ?h2)"
    using run by (subst fuzzySearchBreeds_heap_default) (simp only: maxDistance_def)
  have pure': "fuzzySearchBreeds (map (\<lambda>r. fst (h ! r)) dogBreeds) searchTerm maxDistanceArg
      = Inr (map (\<lambda>r. fst (?h2 ! r)) (?subs @ ?st))"
    using pure by (subst fuzzySearchBreeds_default) (simp only: maxDistance_def)
  from run' frame objs pure' show ?thesis by blast
qed

theorem fuzzySearchBreeds_heap_frame_witness:
  "validateNonEmptyString ''Pumi '' ''Search term'' = Inr ()
   \<and> validateNonNegativeNumber (withDefault (Fin 2) (Some (Fin 2))) ''maxDistance'' = Inr ()
   \<and> list_all (\<lambda>r. r < length exampleHeap \<and> snd (exampleHeap ! r) = None) [0, 1, 2, 3]
   \<and> fuzzySearchBreeds_heap exampleHeap [0, 1, 2, 3] ''Pumi '' (Some (Fin 2))
        = Inr ([2, 6, 7],
               exampleHeap @ [(pug, Some 2), (puli, Some 1)] @ [(puli, None), (pug, None)])
   \<and> (\<exists>result h'.
        fuzzySearchBreeds_heap exampleHeap [0, 1, 2, 3] ''Pumi '' (Some (Fin 2)) = Inr (result, h')
      \<and> take (length exampleHeap) h' = exampleHeap
      \<and> (\<forall>r \<in> set result. r < length h' \<and> snd (h' ! r) = None
            \<and> (\<exists>c \<in> set [0, 1, 2, 3]. h' ! r = exampleHeap ! c))
      \<and> fuzzySearchBreeds (map (\<lambda>r. fst (exampleHeap ! r)) [0, 1, 2, 3]) ''Pumi '' (Some (Fin 2))
            = Inr (map (\<lambda>r. fst (h' ! r)) result))"
proof -
  have t: "validateNonEmptyString ''Pumi '' ''Search term'' = Inr ()" by code_simp
  have m: "validateNonNegativeNumber (withDefault (Fin 2) (Some (Fin 2))) ''maxDistance'' = Inr ()"
    by code_simp
  have refs: "\<forall>r \<in> set [0, 1, 2, 3]. r < length exampleHeap \<and> snd (exampleHeap ! r) = None"
    by (simp add: exampleHeap_def exampleCatalog_def)
  have v: "fuzzySearchBreeds_heap exampleHeap [0, 1, 2, 3] ''Pumi '' (Some (Fin 2))
      = Inr ([2, 6, 7],
             exampleHeap @ [(pug, Some 2), (puli, Some 1)] @ [(puli, None), (pug, None)])"
    by code_simp
  have refs': "list_all (\<lambda>r. r < length exampleHeap \<and> snd (exampleHeap ! r) = None) [0, 1, 2, 3]"
    using refs by (simp only: list_all_iff)
  from t m refs' v fuzzySearchBreeds_heap_frame [OF t m refs]
  show ?thesis by blast
qed

section \<open>Weight range filter: order of the bounds and unit aliases\<close>

lemma math_min_commute: "math_min a b = math_min b a"
  by (cases a; cases b) (auto simp: math_min_def)

lemma math_max_commute: "math_max a b = math_max b a"
  by (cases a; cases b) (auto simp: math_max_def)

lemma aliases_disjoint: "x \<in> set UNIT_ALIASES_lbs \<Longrightarrow> x \<notin> set UNIT_ALIASES_kgs"
  by (auto simp: UNIT_ALIASES_lbs_def UNIT_ALIASES_kgs_def)

lemma validateUnit_kgs:
  "trim (toLowerCase v) \<in> set UNIT_ALIASES_kgs \<Longrightarrow> validateUnit v = Inr ''kgs''"
  by (simp add: validateUnit_def)

lemma validateUnit_lbs:
  "trim (toLowerCase v) \<in> set UNIT_ALIASES_lbs \<Longrightarrow> validateUnit v = Inr ''lbs''"
  by (simp add: validateUnit_def aliases_disjoint)

lemma aliases_kgs_normal: "\<forall>v \<in> set UNIT_ALIASES_kgs. trim (toLowerCase v) = v"
  by code_simp

lemma aliases_lbs_normal: "\<forall>v \<in> set UNIT_ALIASES_lbs. trim (toLowerCase v) = v"
  by code_simp

lemma getDogsByWeightRange_alias:
  assumes "validateUnit v = Inr k" "validateUnit v' = Inr k"
  shows "getDogsByWeightRange dogBreeds mn mx (Some v) = getDogsByWeightRange dogBreeds mn mx (Some v')
    \<and> (\<exists>r. getDogsByWeightRange dogBreeds mn mx (Some v) = Inr r)"
  using assms by (simp add: getDogsByWeightRange_def withDefault_Some)

lemma getDogsByWeightRange_default:
  assumes "validateUnit v = Inr ''lbs''"
  shows "getDogsByWeightRange dogBreeds mn mx (Some v) = getDogsByWeightRange dogBreeds mn mx None"
proof -
  have "trim (toLowerCase ''lbs'') \<in> set UNIT_ALIASES_lbs" by code_simp
  then have "validateUnit ''lbs'' = Inr ''lbs''" by (rule validateUnit_lbs)
  then show ?thesis using assms
    by (simp add: getDogsByWeightRange_def withDefault_def)
qed

text \<open>
  C7. For all numbers \<open>min\<close> and \<open>max\<close> (\<open>NaN\<close> and the infinities included),
  \<open>getDogsByWeightRange\<close> gives the same result when the two bounds are swapped. Two unit
  strings that, lower-cased and trimmed, are both in the alias table of kilograms, or both
  in the alias table of pounds, give the same result, which is a list and not an error;
  an alias of pounds gives the result of the omitted unit; in particular any two of
  \<open>kg\<close>, \<open>kgs\<close>, \<open>kilogram\<close>, \<open>kilograms\<close>, \<open>kilo\<close>, \<open>kilos\<close> agree, and any two of \<open>lb\<close>,
  \<open>lbs\<close>, \<open>pound\<close>, \<open>pounds\<close> agree.
\<close>

theorem getDogsByWeightRange_swap_and_alias:
  "getDogsByWeightRange dogBreeds mn mx u = getDogsByWeightRange dogBreeds mx mn u
   \<and> (trim (toLowerCase v) \<in> set UNIT_ALIASES_kgs \<and> trim (toLowerCase v') \<in> set UNIT_ALIASES_kgs \<longrightarrow>
        getDogsByWeightRange dogBreeds mn mx (Some v) = getDogsByWeightRange dogBreeds mn mx (Some v')
        \<and> (\<exists>r. getDogsByWeightRange dogBreeds mn mx (Some v) = Inr r))
   \<and> (trim (toLowerCase v) \<in> set UNIT_ALIASES_lbs \<and> trim (toLowerCase v') \<in> set UNIT_ALIASES_lbs \<longrightarrow>
        getDogsByWeightRange dogBreeds mn mx (Some v) = getDogsByWeightRange dogBreeds mn mx (Some v')
        \<and> getDogsByWeightRange dogBreeds mn mx (Some v) = getDogsByWeightRange dogBreeds mn mx None
        \<and> (\<exists>r. getDogsByWeightRange dogBreeds mn mx (Some v) = Inr r))
   \<and> (\<forall>x \<in> set UNIT_ALIASES_kgs. \<forall>y \<in> set UNIT_ALIASES_kgs.
        getDogsByWeightRange dogBreeds mn mx (Some x) = getDogsByWeightRange dogBreeds mn mx (Some y))
   \<and> (\<forall>x \<in> set UNIT_ALIASES_lbs. \<forall>y \<in> set UNIT_ALIASES_lbs.
        getDogsByWeightRange dogBreeds mn mx (Some x) = getDogsByWeightRange dogBreeds mn mx (Some y))"
proof -
  have swap: "getDogsByWeightRange dogBreeds mn mx u = getDogsByWeightRange dogBreeds mx mn u"
    unfolding getDogsByWeightRange_def
    by (simp only: math_min_commute [of mn mx] math_max_commute [of mn mx])
  have kg: "getDogsByWeightRange dogBreeds mn mx (Some a) = getDogsByWeightRange dogBreeds mn mx (Some b)
      \<and> (\<exists>r. getDogsByWeightRange dogBreeds mn mx (Some a) = Inr r)"
    if "trim (toLowerCase a) \<in> set UNIT_ALIASES_kgs" "trim (toLowerCase b) \<in> set UNIT_ALIASES_kgs"
    for a b
    using that by (intro getDogsByWeightRange_alias [where k = "''kgs''"] validateUnit_kgs)
  have lb: "getDogsByWeightRange dogBreeds mn mx (Some a) = getDogsByWeightRange dogBreeds mn mx (Some b)
      \<and> (\<exists>r. getDogsByWeightRange dogBreeds mn mx (Some a) = Inr r)"
    if "trim (toLowerCase a) \<in> set UNIT_ALIASES_lbs" "trim (toLowerCase b) \<in> set UNIT_ALIASES_lbs"
    for a b
    using that by (intro getDogsByWeightRange_alias [where k = "''lbs''"] validateUnit_lbs)
  have dflt: "getDogsByWeightRange dogBreeds mn mx (Some a) = getDogsByWeightRange dogBreeds mn mx None"
    if "trim (toLowerCase a) \<in> set UNIT_ALIASES_lbs" for a
    using that by (intro getDogsByWeightRange_default validateUnit_lbs)
  have kgs_all: "\<forall>x \<in> set UNIT_ALIASES_kgs. \<forall>y \<in> set UNIT_ALIASES_kgs.
        getDogsByWeightRange dogBreeds mn mx (Some x) = getDogsByWeightRange dogBreeds mn mx (Some y)"
    using kg aliases_kgs_normal by simp
  have lbs_all: "\<forall>x \<in> set UNIT_ALIASES_lbs. \<forall>y \<in> set UNIT_ALIASES_lbs.
        getDogsByWeightRange dogBreeds mn mx (Some x) = getDogsByWeightRange dogBreeds mn mx (Some y)"
    using lb aliases_lbs_normal by simp
  from swap kg [of v v'] lb [of v v'] dflt [of v] kgs_all lbs_all show ?thesis by blast
qed

theorem getDogsByWeightRange_swap_and_alias_witness:
  "trim (toLowerCase ''kg'') \<in> set UNIT_ALIASES_kgs
   \<and> trim (toLowerCase '' Kilograms '') \<in> set UNIT_ALIASES_kgs
   \<and> trim (toLowerCase ''lb'') \<in> set UNIT_ALIASES_lbs
   \<and> trim (toLowerCase ''POUNDS'') \<in> set UNIT_ALIASES_lbs
   \<and> getDogsByWeightRange exampleCatalog (Fin 5) (Fin 7) (Some ''kg'')
        = getDogsByWeightRange exampleCatalog (Fin 5) (Fin 7) (Some '' Kilograms '')
   \<and> getDogsByWeightRange exampleCatalog (Fin 26) (Fin 30) (Some ''lb'')
        = getDogsByWeightRange exampleCatalog (Fin 26) (Fin 30) (Some ''POUNDS'')
   \<and> getDogsByWeightRange exampleCatalog (Fin 5) (Fin 7) (Some ''kg'')
        = getDogsByWeightRange exampleCatalog (Fin 7) (Fin 5) (Some ''kg'')
   \<and> getDogsByWeightRange exampleCatalog (Fin 5) (Fin 7) (Some ''kg'') = Inr [pug, peke]
   \<and> getDogsByWeightRange exampleCatalog (Fin 26) (Fin 30) (Some ''lb'') = Inr [puli]
   \<and> getDogsByWeightRange exampleCatalog (Fin 50) (Fin 30) None = Inr [puli]"
proof -
  have a: "trim (toLowerCase ''kg'') \<in> set UNIT_ALIASES_kgs" by code_simp
  have b: "trim (toLowerCase '' Kilograms '') \<in> set UNIT_ALIASES_kgs" by code_simp
  have c: "trim (toLowerCase ''lb'') \<in> set UNIT_ALIASES_lbs" by code_simp
  have d: "trim (toLowerCase ''POUNDS'') \<in> set UNIT_ALIASES_lbs" by code_simp
  have v: "getDogsByWeightRange exampleCatalog (Fin 5) (Fin 7) (Some ''kg'') = Inr [pug, peke]"
    by code_simp
  have w: "getDogsByWeightRange exampleCatalog (Fin 50) (Fin 30) None = Inr [puli]"
    by code_simp
  have x: "getDogsByWeightRange exampleCatalog (Fin 26) (Fin 30) (Some ''lb'') = Inr [puli]"
    by code_simp
  from a b c d v w x
    getDogsByWeightRange_swap_and_alias
      [of exampleCatalog "Fin 5" "Fin 7" "Some ''kg''" "''kg''" "'' Kilograms ''"]
    getDogsByWeightRange_swap_and_alias
      [of exampleCatalog "Fin 26" "Fin 30" "Some ''lb''" "''lb''" "''POUNDS''"]
  show ?thesis by blast
qed

section \<open>Comparison: an unknown first breed\<close>

text \<open>
  C4, as the code has it. When \<open>x\<close> is a valid query that resolves to no record and \<open>y\<close>
  is not blank, \<open>compareBreeds(x, y)\<close> raises the not-found error naming \<open>x\<close>, an \<open>Error\<close>
  and not a \<open>NonEmptyStringError\<close>, whatever \<open>y\<close> resolves to. Both arguments are
  validated first: a blank \<open>y\<close> raises \<open>NonEmptyStringError\<close> for \<open>Breed 2\<close> instead.
\<close>

theorem compareBreeds_unknown_first:
  assumes "getDogBreedData dogBreeds x \<lparr>opt_fuzzy = Some True, opt_lang = None\<rparr> = Inr None"
    and "validateNonEmptyString y ''Breed 2'' = Inr ()"
  shows "compareBreeds dogBreeds x y = Inl (notFound x)"
proof -
  from assms(1) have x: "trim x \<noteq> []"
    by (auto simp: getDogBreedData_def validateNonEmptyString_def split: if_splits)
  from assms(2) have y: "trim y \<noteq> []"
    by (auto simp: validateNonEmptyString_def split: if_splits)
  from y have "\<exists>r. getDogBreedData dogBreeds y \<lparr>opt_fuzzy = Some True, opt_lang = None\<rparr> = Inr r"
    by (simp add: getDogBreedData_def validateNonEmptyString_def)
  then show ?thesis
    using assms(1) x y
    by (auto simp: compareBreeds_def validateNonEmptyString_def)
qed

theorem compareBreeds_unknown_first_witness:
  "getDogBreedData exampleCatalog ''zzz'' \<lparr>opt_fuzzy = Some True, opt_lang = None\<rparr> = Inr None
   \<and> validateNonEmptyString ''pug'' ''Breed 2'' = Inr ()
   \<and> compareBreeds exampleCatalog ''zzz'' ''pug'' = Inl (notFound ''zzz'')"
proof -
  have a: "getDogBreedData exampleCatalog ''zzz'' \<lparr>opt_fuzzy = Some True, opt_lang = None\<rparr> = Inr None" by code_simp
  have b: "validateNonEmptyString ''pug'' ''Breed 2'' = Inr ()" by code_simp
  from a b compareBreeds_unknown_first [OF a b] show ?thesis by blast
qed

text \<open>
  The claim as the specification states it (for every \<open>y\<close>, without evaluating \<open>y\<close>)
  fails for a blank \<open>y\<close>: the unknown \<open>zzz\<close> and a second argument of two spaces raise
  \<open>NonEmptyStringError\<close>, not the not-found error.
\<close>

theorem compareBreeds_blank_second_counterexample:
  "getDogBreedData exampleCatalog ''zzz'' \<lparr>opt_fuzzy = Some True, opt_lang = None\<rparr> = Inr None
   \<and> compareBreeds exampleCatalog ''zzz'' ''  '' = Inl (NonEmptyStringError ''Breed 2'')
   \<and> compareBreeds exampleCatalog ''zzz'' ''  '' \<noteq> Inl (notFound ''zzz'')"
proof -
  have a: "getDogBreedData exampleCatalog ''zzz'' \<lparr>opt_fuzzy = Some True, opt_lang = None\<rparr> = Inr None" by code_simp
  have b: "compareBreeds exampleCatalog ''zzz'' ''  '' = Inl (NonEmptyStringError ''Breed 2'')"
    by code_simp
  from a b show ?thesis by (simp add: notFound_def)
qed

section \<open>Recommendation: the nested criteria\<close>

lemma compatibilityFails_iff:
  "\<not> compatibilityFails wanted dog \<longleftrightarrow>
     (case wanted of
        None \<Rightarrow> True
      | Some c \<Rightarrow> (case compatibility dog of
                     None \<Rightarrow> False
                   | Some dc \<Rightarrow> compatibilityAgrees c dc))"
  by (auto simp: compatibilityFails_def compatibilityAgrees_def keyDiffers_def
      split: option.splits)

lemma weightRangeFails_iff:
  "\<not> weightRangeFails (Some wr) dog \<longleftrightarrow>
     (\<exists>w wd. weight dog = Some w
          \<and> (if wr_unit wr = Some ''kgs'' then kgs w else lbs w) = Some wd
          \<and> \<not> (js_lt (max_w wd) (wr_min wr) \<or> js_gt (min_w wd) (wr_max wr)))"
  by (auto simp: weightRangeFails_def Let_def split: option.splits if_splits)

lemma minLifespanFails_iff:
  assumes "js_gt m (Fin 0)"
  shows "\<not> minLifespanFails m dog \<longleftrightarrow>
     (\<exists>l. lifespan dog = Some l \<and> l \<noteq> []
          \<and> (\<forall>avg. parseLifespanAverage l = Some avg \<longrightarrow> \<not> js_lt avg m))"
  using assms
  by (auto simp: minLifespanFails_def split: option.splits if_splits)

lemma minLifespanFails_zero: "\<not> minLifespanFails (Fin 0) dog"
  by (auto simp: minLifespanFails_def js_gt_def split: option.splits)

lemma recommended_compatibility:
  "recommended prefs dog \<longleftrightarrow>
     recommended (prefs\<lparr>p_compatibility := None\<rparr>) dog
     \<and> \<not> compatibilityFails (p_compatibility prefs) dog"
  by (simp add: recommended_def Let_def compatibilityFails_def)

lemma recommended_weightRange:
  "recommended prefs dog \<longleftrightarrow>
     recommended (prefs\<lparr>p_weightRange := None\<rparr>) dog
     \<and> \<not> weightRangeFails (p_weightRange prefs) dog"
  by (simp add: recommended_def Let_def weightRangeFails_def)

lemma recommended_minLifespan:
  "recommended prefs dog \<longleftrightarrow>
     recommended (prefs\<lparr>p_minLifespan := None\<rparr>) dog
     \<and> \<not> minLifespanFails (case p_minLifespan prefs of None \<Rightarrow> Fin 0 | Some v \<Rightarrow> v) dog"
  by (simp add: recommended_def Let_def minLifespanFails_zero)

lemma getRecommendedBreeds_member:
  "dog \<in> set (getRecommendedBreeds dogBreeds prefs) \<longleftrightarrow> dog \<in> set dogBreeds \<and> recommended prefs dog"
  by (simp add: getRecommendedBreeds_def)

subsection \<open>Compatibility\<close>

text \<open>
  C8, as the code has it. A record is kept under a criteria object exactly when it is
  kept without the \<open>compatibility\<close> criterion and, if a \<open>compatibility\<close> object is supplied,
  the record has a compatibility object whose sub-fields equal every boolean supplied.
  So a record lacking a compatibility object is excluded exactly when a \<open>compatibility\<close>
  object is supplied (be it one with no boolean in it), and when none is supplied no
  record is excluded on compatibility grounds.
\<close>

theorem getRecommendedBreeds_compatibility:
  "dog \<in> set (getRecommendedBreeds dogBreeds prefs) \<longleftrightarrow>
     dog \<in> set (getRecommendedBreeds dogBreeds (prefs\<lparr>p_compatibility := None\<rparr>))
     \<and> (case p_compatibility prefs of
          None \<Rightarrow> True
        | Some c \<Rightarrow> (case compatibility dog of
                       None \<Rightarrow> False
                     | Some dc \<Rightarrow> compatibilityAgrees c dc))"
  unfolding getRecommendedBreeds_member
  using recommended_compatibility [of prefs dog] compatibilityFails_iff [of "p_compatibility prefs" dog]
  by blast

theorem getRecommendedBreeds_compatibility_witness:
  "(pug \<in> set (getRecommendedBreeds exampleCatalog
        (noPreferences\<lparr>p_compatibility := Some \<lparr>children = Some True, otherDogs = None, cats = None\<rparr>\<rparr>)) \<longleftrightarrow>
     pug \<in> set (getRecommendedBreeds exampleCatalog noPreferences)
     \<and> compatibilityAgrees \<lparr>children = Some True, otherDogs = None, cats = None\<rparr>
          \<lparr>children = Some True, otherDogs = Some True, cats = Some True\<rparr>)
   \<and> getRecommendedBreeds exampleCatalog
        (noPreferences\<lparr>p_compatibility := Some \<lparr>children = Some True, otherDogs = None, cats = None\<rparr>\<rparr>)
      = [pug, pumi]
   \<and> getRecommendedBreeds exampleCatalog noPreferences = exampleCatalog"
proof -
  have v: "getRecommendedBreeds exampleCatalog
        (noPreferences\<lparr>p_compatibility := Some \<lparr>children = Some True, otherDogs = None, cats = None\<rparr>\<rparr>)
      = [pug, pumi]"
    by code_simp
  have e: "getRecommendedBreeds exampleCatalog noPreferences = exampleCatalog" by code_simp
  from getRecommendedBreeds_compatibility [of pug exampleCatalog
      "noPreferences\<lparr>p_compatibility := Some \<lparr>children = Some True, otherDogs = None, cats = None\<rparr>\<rparr>"]
  have "pug \<in> set (getRecommendedBreeds exampleCatalog
        (noPreferences\<lparr>p_compatibility := Some \<lparr>children = Some True, otherDogs = None, cats = None\<rparr>\<rparr>)) \<longleftrightarrow>
     pug \<in> set (getRecommendedBreeds exampleCatalog noPreferences)
     \<and> compatibilityAgrees \<lparr>children = Some True, otherDogs = None, cats = None\<rparr>
          \<lparr>children = Some True, otherDogs = Some True, cats = Some True\<rparr>"
    by (simp add: noPreferences_def pug_def)
  with v e show ?thesis by blast
qed

text \<open>
  The claim as the specification states it (excluded exactly when at least one
  compatibility constraint is supplied) fails for a \<open>compatibility\<close> object that supplies
  no boolean: the record \<open>puli\<close>, which has no compatibility object, is kept without the
  criterion and excluded with the empty one.
\<close>

theorem getRecommendedBreeds_empty_compatibility_counterexample:
  "compatibility puli = None
   \<and> puli \<in> set (getRecommendedBreeds exampleCatalog noPreferences)
   \<and> puli \<notin> set (getRecommendedBreeds exampleCatalog
        (noPreferences\<lparr>p_compatibility := Some \<lparr>children = None, otherDogs = None, cats = None\<rparr>\<rparr>))"
proof -
  have a: "compatibility puli = None" by (simp add: puli_def)
  have b: "getRecommendedBreeds exampleCatalog noPreferences = exampleCatalog" by code_simp
  have c: "getRecommendedBreeds exampleCatalog
        (noPreferences\<lparr>p_compatibility := Some \<lparr>children = None, otherDogs = None, cats = None\<rparr>\<rparr>)
      = [pug, pumi, peke]"
    by code_simp
  have d: "puli \<noteq> pug" "puli \<noteq> pumi" "puli \<noteq> peke"
    by (simp_all add: puli_def pug_def pumi_def peke_def)
  show ?thesis unfolding b c using a d by (simp add: exampleCatalog_def)
qed

subsection \<open>Weight range\<close>

text \<open>
  C3. When the criteria supply a \<open>weightRange\<close>, a record is kept exactly when it is kept
  without that criterion, has weight data, has the entry of the unit (the \<open>kgs\<close> entry
  when the unit is exactly the string \<open>kgs\<close>, the \<open>lbs\<close> entry otherwise: no alias is
  expanded), and the stored range overlaps \<open>[min, max]\<close> inclusively, \<open>min\<close> and \<open>max\<close>
  taken as given (not sorted).
\<close>

theorem getRecommendedBreeds_weightRange:
  assumes "p_weightRange prefs = Some wr"
  shows "dog \<in> set (getRecommendedBreeds dogBreeds prefs) \<longleftrightarrow>
     dog \<in> set (getRecommendedBreeds dogBreeds (prefs\<lparr>p_weightRange := None\<rparr>))
     \<and> (\<exists>w wd. weight dog = Some w
          \<and> (if wr_unit wr = Some ''kgs'' then kgs w else lbs w) = Some wd
          \<and> \<not> (js_lt (max_w wd) (wr_min wr) \<or> js_gt (min_w wd) (wr_max wr)))"
  unfolding getRecommendedBreeds_member
  using recommended_weightRange [of prefs dog] weightRangeFails_iff [of wr dog] assms
  by auto

theorem getRecommendedBreeds_weightRange_witness:
  "p_weightRange (noPreferences\<lparr>p_weightRange :=
        Some \<lparr>wr_min = Fin 10, wr_max = Fin 20, wr_unit = Some ''lbs''\<rparr>\<rparr>)
      = Some \<lparr>wr_min = Fin 10, wr_max = Fin 20, wr_unit = Some ''lbs''\<rparr>
   \<and> (puli \<in> set (getRecommendedBreeds exampleCatalog (noPreferences\<lparr>p_weightRange :=
        Some \<lparr>wr_min = Fin 10, wr_max = Fin 20, wr_unit = Some ''lbs''\<rparr>\<rparr>)) \<longleftrightarrow>
      puli \<in> set (getRecommendedBreeds exampleCatalog noPreferences)
      \<and> (\<exists>w wd. weight puli = Some w \<and> lbs w = Some wd
            \<and> \<not> (js_lt (max_w wd) (Fin 10) \<or> js_gt (min_w wd) (Fin 20))))
   \<and> getRecommendedBreeds exampleCatalog (noPreferences\<lparr>p_weightRange :=
        Some \<lparr>wr_min = Fin 10, wr_max = Fin 20, wr_unit = Some ''lbs''\<rparr>\<rparr>) = [pug, peke]
   \<and> getRecommendedBreeds exampleCatalog (noPreferences\<lparr>p_weightRange :=
        Some \<lparr>wr_min = Fin 20, wr_max = Fin 10, wr_unit = Some ''lbs''\<rparr>\<rparr>) = []
   \<and> getRecommendedBreeds exampleCatalog (noPreferences\<lparr>p_weightRange :=
        Some \<lparr>wr_min = Fin 5, wr_max = Fin 7, wr_unit = Some ''kgs''\<rparr>\<rparr>) = [pug, peke]
   \<and> getRecommendedBreeds exampleCatalog (noPreferences\<lparr>p_weightRange :=
        Some \<lparr>wr_min = Fin 5, wr_max = Fin 7, wr_unit = Some ''kg''\<rparr>\<rparr>) = [peke]"
proof -
  let ?wr = "\<lparr>wr_min = Fin 10, wr_max = Fin 20, wr_unit = Some ''lbs''\<rparr>"
  have a: "p_weightRange (noPreferences\<lparr>p_weightRange := Some ?wr\<rparr>) = Some ?wr" by simp
  have v1: "getRecommendedBreeds exampleCatalog (noPreferences\<lparr>p_weightRange :=
        Some \<lparr>wr_min = Fin 10, wr_max = Fin 20, wr_unit = Some ''lbs''\<rparr>\<rparr>) = [pug, peke]"
    by code_simp
  have v2: "getRecommendedBreeds exampleCatalog (noPreferences\<lparr>p_weightRange :=
        Some \<lparr>wr_min = Fin 20, wr_max = Fin 10, wr_unit = Some ''lbs''\<rparr>\<rparr>) = []"
    by code_simp
  have v3: "getRecommendedBreeds exampleCatalog (noPreferences\<lparr>p_weightRange :=
        Some \<lparr>wr_min = Fin 5, wr_max = Fin 7, wr_unit = Some ''kgs''\<rparr>\<rparr>) = [pug, peke]"
    by code_simp
  have v4: "getRecommendedBreeds exampleCatalog (noPreferences\<lparr>p_weightRange :=
        Some \<lparr>wr_min = Fin 5, wr_max = Fin 7, wr_unit = Some ''kg''\<rparr>\<rparr>) = [peke]"
    by code_simp
  from getRecommendedBreeds_weightRange [OF a, of puli exampleCatalog]
  have "puli \<in> set (getRecommendedBreeds exampleCatalog (noPreferences\<lparr>p_weightRange := Some ?wr\<rparr>)) \<longleftrightarrow>
      puli \<in> set (getRecommendedBreeds exampleCatalog noPreferences)
      \<and> (\<exists>w wd. weight puli = Some w \<and> lbs w = Some wd
            \<and> \<not> (js_lt (max_w wd) (Fin 10) \<or> js_gt (min_w wd) (Fin 20)))"
    by (simp add: noPreferences_def)
  with a v1 v2 v3 v4 show ?thesis by blast
qed

subsection \<open>Minimum lifespan\<close>

lemma isDigit_not_whitespace: "isDigit c \<Longrightarrow> \<not> isWhiteSpaceUnit c"
  by (auto simp: isDigit_def isWhiteSpaceUnit_def)

lemma isDigit_not_dash: "isDigit c \<Longrightarrow> c \<noteq> hyphen \<and> c \<noteq> enDash \<and> c \<noteq> emDash"
  by (auto simp: isDigit_def hyphen_def enDash_def emDash_def)

lemma isDigit_not_sign: "isDigit c \<Longrightarrow> c \<noteq> 45 \<and> c \<noteq> 43"
  by (auto simp: isDigit_def)

lemma trimUnits_id:
  assumes "s \<noteq> []" "\<not> isWhiteSpaceUnit (hd s)" "\<not> isWhiteSpaceUnit (last s)"
  shows "trimUnits s = s"
proof -
  have "dropWhile isWhiteSpaceUnit s = s" using assms by (simp add: dropWhile_eq_self_iff)
  moreover have "dropWhile isWhiteSpaceUnit (rev s) = rev s"
    using assms by (simp add: dropWhile_eq_self_iff hd_rev)
  ultimately show ?thesis by (simp add: trimUnits_def)
qed

lemma trimUnits_digits:
  assumes "s \<noteq> []" "\<forall>c \<in> set s. isDigit c"
  shows "trimUnits s = s"
  using assms by (intro trimUnits_id) (auto simp: isDigit_not_whitespace)

lemma split_js_none: "c \<notin> set s \<Longrightarrow> split_js c s = [s]"
  by (induction s) auto

lemma split_js_first: "c \<notin> set a \<Longrightarrow> split_js c (a @ c # r) = a # split_js c r"
  by (induction a) auto

lemma decimalValue_foldl_nonneg:
  "0 \<le> acc \<Longrightarrow> \<forall>c \<in> set ds. isDigit c \<Longrightarrow>
     0 \<le> foldl (\<lambda>acc c. 10 * acc + (c - 48)) acc ds"
  by (induction ds arbitrary: acc) (auto simp: isDigit_def)

lemma decimalValue_nonneg: "\<forall>c \<in> set ds. isDigit c \<Longrightarrow> 0 \<le> decimalValue ds"
  unfolding decimalValue_def by (rule decimalValue_foldl_nonneg) simp_all

lemma toDouble_exact: "\<bar>n\<bar> < 2 ^ 53 \<Longrightarrow> toDouble n = Fin (real_of_int n)"
  by (simp add: toDouble_def nearestDouble_def)

lemma parseInt10_digits:
  assumes "s \<noteq> []" "\<forall>c \<in> set s. isDigit c"
  shows "parseInt10 s = toDouble (decimalValue s)"
proof -
  have h: "isDigit (hd s)" using assms by simp
  have dw: "dropWhile isWhiteSpaceUnit s = s"
    using assms(1) h by (simp add: dropWhile_eq_self_iff isDigit_not_whitespace)
  have sign: "hd s \<noteq> 45" "hd s \<noteq> 43"
    using h by (auto dest: isDigit_not_sign)
  have tw: "takeWhile isDigit s = s" using assms(2) by (simp add: takeWhile_eq_all_conv)
  show ?thesis
    unfolding parseInt10_def Let_def dw
    using assms(1) sign by (simp add: tw)
qed

lemma addIntegers_exact:
  "\<bar>x + y\<bar> < 2 ^ 53 \<Longrightarrow>
     addIntegers (Fin (real_of_int x)) (Fin (real_of_int y)) = Fin (real_of_int x + real_of_int y)"
  by (simp add: addIntegers_def toDouble_exact)

lemma cleaned_range:
  assumes a: "\<forall>c \<in> set a. isDigit c" and b: "\<forall>c \<in> set b. isDigit c"
    and r: "\<forall>c \<in> set rest. \<not> isDigit c \<and> c \<noteq> hyphen \<and> c \<noteq> enDash \<and> c \<noteq> emDash"
    and d: "d = hyphen \<or> d = enDash \<or> d = emDash"
  shows "map (\<lambda>c. if c = enDash \<or> c = emDash then hyphen else c)
           (filter (\<lambda>c. isDigit c \<or> c = hyphen \<or> c = enDash \<or> c = emDash) (a @ [d] @ b @ rest))
         = a @ hyphen # b"
proof -
  let ?keep = "\<lambda>c. isDigit c \<or> c = hyphen \<or> c = enDash \<or> c = emDash"
  let ?norm = "\<lambda>c. if c = enDash \<or> c = emDash then hyphen else c"
  have fa: "filter ?keep a = a" using a by simp
  have fb: "filter ?keep b = b" using b by simp
  have fr: "filter ?keep rest = []" using r by (simp add: filter_empty_conv)
  have ma: "map ?norm a = a" using a isDigit_not_dash by (intro map_idI) auto
  have mb: "map ?norm b = b" using b isDigit_not_dash by (intro map_idI) auto
  have "filter ?keep (a @ [d] @ b @ rest) = a @ d # b"
    using fa fb fr d by auto
  moreover have "?norm d = hyphen" using d by auto
  ultimately show ?thesis using ma mb by simp
qed

lemma cleaned_single:
  assumes a: "\<forall>c \<in> set a. isDigit c"
    and r: "\<forall>c \<in> set rest. \<not> isDigit c \<and> c \<noteq> hyphen \<and> c \<noteq> enDash \<and> c \<noteq> emDash"
  shows "map (\<lambda>c. if c = enDash \<or> c = emDash then hyphen else c)
           (filter (\<lambda>c. isDigit c \<or> c = hyphen \<or> c = enDash \<or> c = emDash) (a @ rest))
         = a"
proof -
  let ?keep = "\<lambda>c. isDigit c \<or> c = hyphen \<or> c = enDash \<or> c = emDash"
  let ?norm = "\<lambda>c. if c = enDash \<or> c = emDash then hyphen else c"
  have fa: "filter ?keep a = a" using a by simp
  have fr: "filter ?keep rest = []" using r by (simp add: filter_empty_conv)
  have ma: "map ?norm a = a" using a isDigit_not_dash by (intro map_idI) auto
  show ?thesis using fa fr ma by simp
qed

lemma parseLifespanAverage_range:
  assumes a: "a \<noteq> []" "\<forall>c \<in> set a. isDigit c"
    and b: "b \<noteq> []" "\<forall>c \<in> set b. isDigit c"
    and r: "\<forall>c \<in> set rest. \<not> isDigit c \<and> c \<noteq> hyphen \<and> c \<noteq> enDash \<and> c \<noteq> emDash"
    and d: "d = hyphen \<or> d = enDash \<or> d = emDash"
  shows "parseLifespanAverage (a @ [d] @ b @ rest)
     = (if isFinite (toDouble (decimalValue a)) \<and> isFinite (toDouble (decimalValue b))
        then Some (halve (addIntegers (toDouble (decimalValue a)) (toDouble (decimalValue b))))
        else None)"
proof -
  note cleaned = cleaned_range [OF a(2) b(2) r d]
  have "hd (a @ hyphen # b) = hd a" "last (a @ hyphen # b) = last b"
    using a(1) b(1) by simp_all
  moreover have "isDigit (hd a)" "isDigit (last b)" using a b by simp_all
  ultimately have tr: "trimUnits (a @ hyphen # b) = a @ hyphen # b"
    by (intro trimUnits_id) (simp_all add: isDigit_not_whitespace)
  have na: "hyphen \<notin> set a" using a(2) isDigit_not_dash by blast
  have nb: "hyphen \<notin> set b" using b(2) isDigit_not_dash by blast
  have sp: "split_js hyphen (a @ hyphen # b) = [a, b]"
    using na nb by (simp add: split_js_first split_js_none)
  have parts: "filter (\<lambda>s. s \<noteq> []) (map trimUnits [a, b]) = [a, b]"
    using a b by (simp add: trimUnits_digits)
  show ?thesis
    unfolding parseLifespanAverage_def Let_def cleaned tr sp parts
    using a b by (simp add: parseInt10_digits)
qed

lemma parseLifespanAverage_single:
  assumes a: "a \<noteq> []" "\<forall>c \<in> set a. isDigit c"
    and r: "\<forall>c \<in> set rest. \<not> isDigit c \<and> c \<noteq> hyphen \<and> c \<noteq> enDash \<and> c \<noteq> emDash"
  shows "parseLifespanAverage (a @ rest)
     = (if isFinite (toDouble (decimalValue a)) then Some (toDouble (decimalValue a)) else None)"
proof -
  note cleaned = cleaned_single [OF a(2) r]
  have tr: "trimUnits a = a" using a by (rule trimUnits_digits)
  have na: "hyphen \<notin> set a" using a(2) isDigit_not_dash by blast
  have sp: "split_js hyphen a = [a]" using na by (rule split_js_none)
  have parts: "filter (\<lambda>s. s \<noteq> []) (map trimUnits [a]) = [a]" using a tr by simp
  show ?thesis
    unfolding parseLifespanAverage_def Let_def cleaned tr sp parts
    using a by (simp add: parseInt10_digits)
qed

lemma parseLifespanAverage_exact:
  assumes a: "a \<noteq> []" "\<forall>c \<in> set a. isDigit c"
    and b: "b \<noteq> []" "\<forall>c \<in> set b. isDigit c"
    and r: "\<forall>c \<in> set rest. \<not> isDigit c \<and> c \<noteq> hyphen \<and> c \<noteq> enDash \<and> c \<noteq> emDash"
    and d: "d = hyphen \<or> d = enDash \<or> d = emDash"
    and small: "decimalValue a + decimalValue b < 2 ^ 53"
  shows "parseLifespanAverage (a @ [d] @ b @ rest)
       = Some (Fin ((real_of_int (decimalValue a) + real_of_int (decimalValue b)) / 2))
     \<and> parseLifespanAverage (a @ rest) = Some (Fin (real_of_int (decimalValue a)))"
proof -
  have pa: "0 \<le> decimalValue a" using a(2) by (rule decimalValue_nonneg)
  have pb: "0 \<le> decimalValue b" using b(2) by (rule decimalValue_nonneg)
  have sa: "\<bar>decimalValue a\<bar> < 2 ^ 53" "\<bar>decimalValue b\<bar> < 2 ^ 53"
    "\<bar>decimalValue a + decimalValue b\<bar> < 2 ^ 53"
    using pa pb small by simp_all
  have ta: "toDouble (decimalValue a) = Fin (real_of_int (decimalValue a))"
    using sa(1) by (rule toDouble_exact)
  have tb: "toDouble (decimalValue b) = Fin (real_of_int (decimalValue b))"
    using sa(2) by (rule toDouble_exact)
  have "parseLifespanAverage (a @ [d] @ b @ rest)
       = Some (Fin ((real_of_int (decimalValue a) + real_of_int (decimalValue b)) / 2))"
    unfolding parseLifespanAverage_range [OF a b r d] ta tb
    by (simp add: isFinite_def addIntegers_exact [OF sa(3)] halve_def)
  moreover have "parseLifespanAverage (a @ rest) = Some (Fin (real_of_int (decimalValue a)))"
    unfolding parseLifespanAverage_single [OF a r] ta by (simp add: isFinite_def)
  ultimately show ?thesis by blast
qed

text \<open>
  C2, as the code has it. When the criteria supply a positive \<open>minLifespan\<close>, a record is
  kept exactly when it is kept without that criterion, has a non-empty lifespan string,
  and the parsed average, if the string parses, is not below \<open>minLifespan\<close>. So a record
  whose average is below \<open>minLifespan\<close> is excluded, and so is a record with no lifespan
  string or an empty one; a record whose non-empty lifespan string does not parse is not
  excluded by this criterion. The parsed average of \<open>a\<close>, a dash (hyphen, en dash or em
  dash) and \<open>b\<close>, followed by text without digits or dashes, is half the Number sum of the
  Number values of \<open>a\<close> and \<open>b\<close>, and there is none when one of the two is not finite;
  that of a single number is its Number value, if finite. When \<open>a + b\<close> is below \<open>2^53\<close>
  these are the exact mean and the exact number.
\<close>

theorem getRecommendedBreeds_minLifespan:
  assumes "p_minLifespan prefs = Some m" and "js_gt m (Fin 0)"
  shows "(dog \<in> set (getRecommendedBreeds dogBreeds prefs) \<longleftrightarrow>
       dog \<in> set (getRecommendedBreeds dogBreeds (prefs\<lparr>p_minLifespan := None\<rparr>))
       \<and> (\<exists>l. lifespan dog = Some l \<and> l \<noteq> []
            \<and> (\<forall>avg. parseLifespanAverage l = Some avg \<longrightarrow> \<not> js_lt avg m)))
     \<and> (a \<noteq> [] \<and> (\<forall>c \<in> set a. isDigit c) \<and> b \<noteq> [] \<and> (\<forall>c \<in> set b. isDigit c)
          \<and> (\<forall>c \<in> set rest. \<not> isDigit c \<and> c \<noteq> hyphen \<and> c \<noteq> enDash \<and> c \<noteq> emDash)
          \<and> (d = hyphen \<or> d = enDash \<or> d = emDash) \<longrightarrow>
        parseLifespanAverage (a @ [d] @ b @ rest)
          = (if isFinite (toDouble (decimalValue a)) \<and> isFinite (toDouble (decimalValue b))
             then Some (halve (addIntegers (toDouble (decimalValue a)) (toDouble (decimalValue b))))
             else None)
        \<and> parseLifespanAverage (a @ rest)
          = (if isFinite (toDouble (decimalValue a)) then Some (toDouble (decimalValue a)) else None)
        \<and> (decimalValue a + decimalValue b < 2 ^ 53 \<longrightarrow>
             parseLifespanAverage (a @ [d] @ b @ rest)
               = Some (Fin ((real_of_int (decimalValue a) + real_of_int (decimalValue b)) / 2))
             \<and> parseLifespanAverage (a @ rest) = Some (Fin (real_of_int (decimalValue a)))))"
proof -
  have 1: "dog \<in> set (getRecommendedBreeds dogBreeds prefs) \<longleftrightarrow>
       dog \<in> set (getRecommendedBreeds dogBreeds (prefs\<lparr>p_minLifespan := None\<rparr>))
       \<and> (\<exists>l. lifespan dog = Some l \<and> l \<noteq> []
            \<and> (\<forall>avg. parseLifespanAverage l = Some avg \<longrightarrow> \<not> js_lt avg m))"
    unfolding getRecommendedBreeds_member
    using recommended_minLifespan [of prefs dog] minLifespanFails_iff [OF assms(2), of dog] assms(1)
    by auto
  have 2: "parseLifespanAverage (a @ [d] @ b @ rest)
          = (if isFinite (toDouble (decimalValue a)) \<and> isFinite (toDouble (decimalValue b))
             then Some (halve (addIntegers (toDouble (decimalValue a)) (toDouble (decimalValue b))))
             else None)
        \<and> parseLifespanAverage (a @ rest)
          = (if isFinite (toDouble (decimalValue a)) then Some (toDouble (decimalValue a)) else None)
        \<and> (decimalValue a + decimalValue b < 2 ^ 53 \<longrightarrow>
             parseLifespanAverage (a @ [d] @ b @ rest)
               = Some (Fin ((real_of_int (decimalValue a) + real_of_int (decimalValue b)) / 2))
             \<and> parseLifespanAverage (a @ rest) = Some (Fin (real_of_int (decimalValue a))))"
    if h: "a \<noteq> [] \<and> (\<forall>c \<in> set a. isDigit c) \<and> b \<noteq> [] \<and> (\<forall>c \<in> set b. isDigit c)
          \<and> (\<forall>c \<in> set rest. \<not> isDigit c \<and> c \<noteq> hyphen \<and> c \<noteq> enDash \<and> c \<noteq> emDash)
          \<and> (d = hyphen \<or> d = enDash \<or> d = emDash)"
  proof -
    from h have a: "a \<noteq> []" "\<forall>c \<in> set a. isDigit c" and b: "b \<noteq> []" "\<forall>c \<in> set b. isDigit c"
      and r: "\<forall>c \<in> set rest. \<not> isDigit c \<and> c \<noteq> hyphen \<and> c \<noteq> enDash \<and> c \<noteq> emDash"
      and d: "d = hyphen \<or> d = enDash \<or> d = emDash"
      by blast+
    show ?thesis
      using parseLifespanAverage_range [OF a b r d] parseLifespanAverage_single [OF a r]
        parseLifespanAverage_exact [OF a b r d]
      by blast
  qed
  from 1 2 show ?thesis by blast
qed

theorem getRecommendedBreeds_minLifespan_witness:
  "p_minLifespan (noPreferences\<lparr>p_minLifespan := Some (Fin 13)\<rparr>) = Some (Fin 13)
   \<and> js_gt (Fin 13) (Fin 0)
   \<and> (peke \<in> set (getRecommendedBreeds exampleCatalog (noPreferences\<lparr>p_minLifespan := Some (Fin 13)\<rparr>)) \<longleftrightarrow>
       peke \<in> set (getRecommendedBreeds exampleCatalog noPreferences)
       \<and> (\<exists>l. lifespan peke = Some l \<and> l \<noteq> []
            \<and> (\<forall>avg. parseLifespanAverage l = Some avg \<longrightarrow> \<not> js_lt avg (Fin 13))))
   \<and> parseLifespanAverage (codeUnits ''13'' @ [enDash] @ codeUnits ''15'' @ codeUnits '' years'')
        = Some (Fin ((13 + 15) / 2))
   \<and> parseLifespanAverage (codeUnits ''13'' @ codeUnits '' years'') = Some (Fin 13)
   \<and> getRecommendedBreeds exampleCatalog (noPreferences\<lparr>p_minLifespan := Some (Fin 13)\<rparr>)
        = [pug, puli]
   \<and> parseLifespanAverage (codeUnits ''9007199254740995'') = Some (Fin 9007199254740996)
   \<and> getRecommendedBreeds [longLived] (noPreferences\<lparr>p_minLifespan := Some (Fin 9007199254740996)\<rparr>)
        = [longLived]
   \<and> parseLifespanAverage (replicate 310 57) = None"
proof -
  have a: "p_minLifespan (noPreferences\<lparr>p_minLifespan := Some (Fin 13)\<rparr>) = Some (Fin 13)"
    by simp
  have b: "js_gt (Fin 13) (Fin 0)" by (simp add: js_gt_def)
  have v: "getRecommendedBreeds exampleCatalog (noPreferences\<lparr>p_minLifespan := Some (Fin 13)\<rparr>)
        = [pug, puli]"
    by code_simp
  have r1: "parseLifespanAverage (codeUnits ''9007199254740995'') = Some (Fin 9007199254740996)"
    by code_simp
  have r2: "getRecommendedBreeds [longLived]
        (noPreferences\<lparr>p_minLifespan := Some (Fin 9007199254740996)\<rparr>) = [longLived]"
    by code_simp
  have r3: "parseLifespanAverage (replicate 310 57) = None" by code_simp
  have d: "codeUnits ''13'' \<noteq> [] \<and> (\<forall>c \<in> set (codeUnits ''13''). isDigit c)
      \<and> codeUnits ''15'' \<noteq> [] \<and> (\<forall>c \<in> set (codeUnits ''15''). isDigit c)
      \<and> (\<forall>c \<in> set (codeUnits '' years'').
            \<not> isDigit c \<and> c \<noteq> hyphen \<and> c \<noteq> enDash \<and> c \<noteq> emDash)
      \<and> (enDash = hyphen \<or> enDash = enDash \<or> enDash = emDash)"
    by (simp add: codeUnits_def isDigit_def hyphen_def enDash_def emDash_def)
  have dv: "decimalValue (codeUnits ''13'') = 13" "decimalValue (codeUnits ''15'') = 15"
    by (simp_all add: decimalValue_def codeUnits_def)
  note inst = getRecommendedBreeds_minLifespan [OF a b, of peke exampleCatalog
      "codeUnits ''13''" "codeUnits ''15''" "codeUnits '' years''" enDash]
  have small: "decimalValue (codeUnits ''13'') + decimalValue (codeUnits ''15'') < 2 ^ 53"
    unfolding dv by simp
  from inst d small
  have e: "parseLifespanAverage (codeUnits ''13'' @ [enDash] @ codeUnits ''15'' @ codeUnits '' years'')
        = Some (Fin ((real_of_int (decimalValue (codeUnits ''13''))
                      + real_of_int (decimalValue (codeUnits ''15''))) / 2))
     \<and> parseLifespanAverage (codeUnits ''13'' @ codeUnits '' years'')
        = Some (Fin (real_of_int (decimalValue (codeUnits ''13''))))"
    by blast
  have e': "parseLifespanAverage (codeUnits ''13'' @ [enDash] @ codeUnits ''15'' @ codeUnits '' years'')
        = Some (Fin ((13 + 15) / 2))
     \<and> parseLifespanAverage (codeUnits ''13'' @ codeUnits '' years'') = Some (Fin 13)"
    using e unfolding dv by simp
  have p: "(noPreferences\<lparr>p_minLifespan := Some (Fin 13)\<rparr>)\<lparr>p_minLifespan := None\<rparr> = noPreferences"
    by (simp add: noPreferences_def)
  from inst
  have iff: "peke \<in> set (getRecommendedBreeds exampleCatalog (noPreferences\<lparr>p_minLifespan := Some (Fin 13)\<rparr>)) \<longleftrightarrow>
       peke \<in> set (getRecommendedBreeds exampleCatalog noPreferences)
       \<and> (\<exists>l. lifespan peke = Some l \<and> l \<noteq> []
            \<and> (\<forall>avg. parseLifespanAverage l = Some avg \<longrightarrow> \<not> js_lt avg (Fin 13)))"
    unfolding p by blast
  from a b iff e' v r1 r2 r3 show ?thesis by blast
qed

text \<open>
  The claim as the specification states it (a record whose lifespan string fails to
  parse is excluded) fails for a non-empty string that does not parse: \<open>puli\<close>, whose
  lifespan is \<open>unknown\<close>, is kept under a minimum lifespan of 13.
\<close>

theorem getRecommendedBreeds_unparsed_lifespan_counterexample:
  "lifespan puli = Some (codeUnits ''unknown'')
   \<and> parseLifespanAverage (codeUnits ''unknown'') = None
   \<and> js_gt (Fin 13) (Fin 0)
   \<and> puli \<in> set (getRecommendedBreeds exampleCatalog (noPreferences\<lparr>p_minLifespan := Some (Fin 13)\<rparr>))"
proof -
  have a: "lifespan puli = Some (codeUnits ''unknown'')" by (simp add: puli_def)
  have b: "parseLifespanAverage (codeUnits ''unknown'') = None" by code_simp
  have c: "js_gt (Fin 13) (Fin 0)" by (simp add: js_gt_def)
  have v: "getRecommendedBreeds exampleCatalog (noPreferences\<lparr>p_minLifespan := Some (Fin 13)\<rparr>)
        = [pug, puli]"
    by code_simp
  show ?thesis unfolding v using a b c by simp
qed

end
